theory Spec2Isabelle
  imports Complex_Main
begin

unbundle bit_operations_syntax

section \<open>JavaScript values and strings\<close>

text \<open>
  A JavaScript string is modelled as a \<open>string\<close> whose characters are its code units
  (those below 256). The white space class of \<open>Number.parseInt\<close> and of the regular
  expression atom \<open>\s\<close> is the same set: TAB, LF, VT, FF, CR, SPACE and NBSP in this range.
\<close>

definition is_space :: "char \<Rightarrow> bool" where
  "is_space c = (c \<in> {CHR 0x09, CHR 0x0A, CHR 0x0B, CHR 0x0C, CHR 0x0D, CHR 0x20, CHR 0xA0})"

definition is_digit :: "char \<Rightarrow> bool" where
  "is_digit c = (c \<in> set ''0123456789'')"

definition digit_val :: "char \<Rightarrow> nat" where
  "digit_val c = (of_char c :: nat) - 48"

fun digits_val :: "nat \<Rightarrow> string \<Rightarrow> nat" where
  "digits_val acc [] = acc"
| "digits_val acc (c # cs) = digits_val (acc * 10 + digit_val c) cs"

text \<open>
  The Numbers of the wait computation are integral doubles: \<open>Number.parseInt\<close> and
  \<open>Date.now()\<close> return integers (or NaN, or an infinity), and a product or a difference of
  integral doubles is rounded to an integral double again. \<open>Fin n\<close> is the double whose
  value is the integer \<open>n\<close>; the two zeros are not told apart.
\<close>

datatype inum = NaN | NegInfinity | PosInfinity | Fin int

text \<open>
  The double nearest to an integer, ties to the even significand: below \<open>2^53\<close> every
  integer is a double; above, the integer is cut to 53 significant bits (\<open>shift_of\<close> counts
  the bits cut off) and rounded, and a result of \<open>2^1024\<close> or more is an infinity.
\<close>

function shift_of :: "int \<Rightarrow> nat" where
  "shift_of a = (if a < 2 ^ 53 then 0 else Suc (shift_of (a div 2)))"
  by pat_completeness auto
termination
  by (relation "measure nat") auto

declare shift_of.simps [simp del]

definition to_double :: "int \<Rightarrow> inum" where
  "to_double n =
     (let a = \<bar>n\<bar> in
      if a < 2 ^ 53 then Fin n
      else
        (let s = shift_of a;
             k = a div 2 ^ s;
             r = a mod 2 ^ s;
             half = 2 ^ (s - 1);
             k' = (if half < r \<or> (r = half \<and> odd k) then k + 1 else k);
             v = k' * 2 ^ s
         in if 2 ^ 1024 \<le> v then (if n < 0 then NegInfinity else PosInfinity)
            else Fin (if n < 0 then - v else v)))"

text \<open>The operators \<open>*\<close>, \<open>-\<close>, \<open><\<close>, \<open><=\<close> and \<open>Math.max\<close> on these Numbers.\<close>

definition js_sign :: "inum \<Rightarrow> int" where
  "js_sign x =
     (case x of
        NaN \<Rightarrow> 0
      | NegInfinity \<Rightarrow> - 1
      | PosInfinity \<Rightarrow> 1
      | Fin n \<Rightarrow> sgn n)"

definition js_mul :: "inum \<Rightarrow> inum \<Rightarrow> inum" where
  "js_mul x y =
     (case (x, y) of
        (Fin a, Fin b) \<Rightarrow> to_double (a * b)
      | _ \<Rightarrow>
          if x = NaN \<or> y = NaN \<or> js_sign x * js_sign y = 0 then NaN
          else if js_sign x * js_sign y < 0 then NegInfinity
          else PosInfinity)"

definition js_sub :: "inum \<Rightarrow> inum \<Rightarrow> inum" where
  "js_sub x y =
     (case (x, y) of
        (Fin a, Fin b) \<Rightarrow> to_double (a - b)
      | (Fin a, PosInfinity) \<Rightarrow> NegInfinity
      | (Fin a, NegInfinity) \<Rightarrow> PosInfinity
      | (PosInfinity, Fin b) \<Rightarrow> PosInfinity
      | (PosInfinity, NegInfinity) \<Rightarrow> PosInfinity
      | (NegInfinity, Fin b) \<Rightarrow> NegInfinity
      | (NegInfinity, PosInfinity) \<Rightarrow> NegInfinity
      | _ \<Rightarrow> NaN)"

definition js_less :: "inum \<Rightarrow> inum \<Rightarrow> bool" where
  "js_less x y =
     (case (x, y) of
        (Fin a, Fin b) \<Rightarrow> a < b
      | (Fin a, PosInfinity) \<Rightarrow> True
      | (NegInfinity, Fin b) \<Rightarrow> True
      | (NegInfinity, PosInfinity) \<Rightarrow> True
      | _ \<Rightarrow> False)"

definition js_le :: "inum \<Rightarrow> inum \<Rightarrow> bool" where
  "js_le x y = (x \<noteq> NaN \<and> y \<noteq> NaN \<and> \<not> js_less y x)"

definition Math_max :: "inum \<Rightarrow> inum \<Rightarrow> inum" where
  "Math_max x y = (if x = NaN \<or> y = NaN then NaN else if js_less x y then y else x)"

text \<open>
  \<open>Number.parseInt(s, 10)\<close>: leading white space is skipped, one sign is accepted, and
  the longest prefix of decimal digits is read; anything after it is ignored. With no digit
  the result is NaN; otherwise it is the double nearest to the signed integer the digits
  write.
\<close>

definition Number_parseInt :: "string \<Rightarrow> inum" where
  "Number_parseInt s =
     (let t = dropWhile is_space s;
          neg = (case t of [] \<Rightarrow> False | c # _ \<Rightarrow> c = CHR ''-'');
          u = (case t of [] \<Rightarrow> [] | c # cs \<Rightarrow> if c = CHR ''-'' \<or> c = CHR ''+'' then cs else t);
          ds = takeWhile is_digit u
      in if ds = [] then NaN
         else to_double (if neg then - int (digits_val 0 ds) else int (digits_val 0 ds)))"

section \<open>The backoff wait\<close>

definition MAX_RATE_LIMIT_RETRIES :: int where
  "MAX_RATE_LIMIT_RETRIES = 2"

definition DEFAULT_RATE_LIMIT_WAIT_MS :: inum where
  "DEFAULT_RATE_LIMIT_WAIT_MS = Fin 1000"

text \<open>
  \<open>XClient.getRateLimitWaitMs\<close>. The header is \<open>None\<close> for \<open>null\<close>; \<open>!resetHeader\<close> also
  holds of the empty string. \<open>now\<close> is the time value that \<open>Date.now()\<close> returns at the
  call, an integer number of milliseconds (of magnitude at most \<open>8.64 * 10^15\<close>, so it is a
  double).
\<close>

definition getRateLimitWaitMs :: "string option \<Rightarrow> int \<Rightarrow> inum" where
  "getRateLimitWaitMs resetHeader now =
     (case resetHeader of
        None \<Rightarrow> DEFAULT_RATE_LIMIT_WAIT_MS
      | Some h \<Rightarrow>
          if h = [] then DEFAULT_RATE_LIMIT_WAIT_MS
          else
            (let parsed = Number_parseInt h in
             if parsed = NaN then DEFAULT_RATE_LIMIT_WAIT_MS
             else
               (let nowMs = Fin now;
                    resetMs = (if js_less (Fin 1000000000000) parsed then parsed
                               else js_mul parsed (Fin 1000))
                in Math_max (js_sub resetMs nowMs) (Fin 0))))"

section \<open>Parsed JSON and the response normalizer\<close>

text \<open>
  The value \<open>JSON.parse\<close> returns. The representation of numbers is left open (\<open>'n\<close>);
  an object is the list of its own properties, each key once. A JavaScript value that may
  be \<open>undefined\<close> is an \<open>option\<close>, \<open>None\<close> being \<open>undefined\<close>.
\<close>

datatype 'n json =
    JNull
  | JBool bool
  | JNumber 'n
  | JString string
  | JArray "'n json list"
  | JObject "(string \<times> 'n json) list"

datatype js_error =
    Error string
  | TypeError
  | TransportError
  | ReadError

datatype request_method = GET | POST | DELETE

record credentials =
  apiKey :: string
  apiSecret :: string
  accessToken :: string
  accessTokenSecret :: string
  bearerToken :: "string option"

text \<open>
  What the client takes from the JavaScript runtime and from the OAuth library:
  \<open>JSON.parse\<close> (\<open>None\<close> when it throws), \<open>JSON.stringify\<close>, the string conversion of a
  number, an array or an object inside a template literal, the digits \<open>String\<close> writes for
  a finite Number that is no integer below \<open>10^21\<close>, and the Authorization header
  that \<open>oauth.toHeader(oauth.authorize({url, meth}, token))\<close> yields for the consumer
  and token secrets, the meth, the URL, the nonce and the timestamp (in seconds).
\<close>

record 'n runtime =
  JSON_parse :: "string \<Rightarrow> 'n json option"
  JSON_stringify :: "'n json \<Rightarrow> string"
  ToString :: "'n json \<Rightarrow> string"
  Number_toString :: "rat \<Rightarrow> string"
  oauth_header :: "credentials \<Rightarrow> request_method \<Rightarrow> string \<Rightarrow> string \<Rightarrow> int \<Rightarrow> string"

text \<open>Property access \<open>v.k\<close> and \<open>v?.k\<close>, for keys that are no built-in property names.\<close>

definition own_prop :: "'n json \<Rightarrow> string \<Rightarrow> 'n json option" where
  "own_prop v k = (case v of JObject kvs \<Rightarrow> map_of kvs k | _ \<Rightarrow> None)"

definition get_prop :: "'n json option \<Rightarrow> string \<Rightarrow> js_error + 'n json option" where
  "get_prop v k =
     (case v of
        None \<Rightarrow> Inl TypeError
      | Some JNull \<Rightarrow> Inl TypeError
      | Some x \<Rightarrow> Inr (own_prop x k))"

definition opt_prop :: "'n json option \<Rightarrow> string \<Rightarrow> 'n json option" where
  "opt_prop v k =
     (case v of
        None \<Rightarrow> None
      | Some JNull \<Rightarrow> None
      | Some x \<Rightarrow> own_prop x k)"

text \<open>The operator \<open>a ?? b\<close> and the conversion \<open>Boolean(v)\<close>.\<close>

definition nullish_or :: "'n json option \<Rightarrow> 'n json option \<Rightarrow> 'n json option" where
  "nullish_or a b = (case a of None \<Rightarrow> b | Some JNull \<Rightarrow> b | Some x \<Rightarrow> Some x)"

definition truthy :: "('n::zero) json option \<Rightarrow> bool" where
  "truthy v =
     (case v of
        None \<Rightarrow> False
      | Some JNull \<Rightarrow> False
      | Some (JBool b) \<Rightarrow> b
      | Some (JNumber n) \<Rightarrow> n \<noteq> 0
      | Some (JString s) \<Rightarrow> s \<noteq> []
      | Some (JArray _) \<Rightarrow> True
      | Some (JObject _) \<Rightarrow> True)"

definition template_string :: "'n runtime \<Rightarrow> 'n json option \<Rightarrow> string" where
  "template_string rt v =
     (case v of
        None \<Rightarrow> ''undefined''
      | Some JNull \<Rightarrow> ''null''
      | Some (JBool b) \<Rightarrow> (if b then ''true'' else ''false'')
      | Some (JString s) \<Rightarrow> s
      | Some x \<Rightarrow> ToString rt x)"

text \<open>Decimal numerals, as string conversion writes an integer.\<close>

definition digit_char :: "nat \<Rightarrow> char" where
  "digit_char d =
     (if d = 0 then CHR ''0'' else if d = 1 then CHR ''1'' else if d = 2 then CHR ''2''
      else if d = 3 then CHR ''3'' else if d = 4 then CHR ''4'' else if d = 5 then CHR ''5''
      else if d = 6 then CHR ''6'' else if d = 7 then CHR ''7'' else if d = 8 then CHR ''8''
      else CHR ''9'')"

function string_of_nat :: "nat \<Rightarrow> string" where
  "string_of_nat n =
     (if n < 10 then [digit_char n] else string_of_nat (n div 10) @ [digit_char (n mod 10)])"
  by pat_completeness auto
termination
  by (relation "measure id") auto

declare string_of_nat.simps [simp del]

definition string_of_int :: "int \<Rightarrow> string" where
  "string_of_int i = (if i < 0 then CHR ''-'' # string_of_nat (nat (- i)) else string_of_nat (nat i))"






text \<open>
  A response as the client reads it: the status, the \<open>x-rate-limit-reset\<close> header
  (\<open>None\<close> when \<open>headers.get\<close> returns \<open>null\<close>) and the body text. \<open>ok\<close> is \<open>res.ok\<close>.
\<close>

record response =
  status :: nat
  reset_header :: "string option"
  body_text :: string

definition ok :: "response \<Rightarrow> bool" where
  "ok res = (200 \<le> status res \<and> status res \<le> 299)"

text \<open>\<open>XClient.parseResponse\<close>; a thrown error is \<open>Inl\<close>.\<close>

definition parseResponse :: "'n runtime \<Rightarrow> response \<Rightarrow> js_error + 'n json" where
  "parseResponse rt res =
     (let body = body_text res in
      case JSON_parse rt body of
        None \<Rightarrow>
          if \<not> ok res
          then Inl (Error (''X API error '' @ string_of_nat (status res) @ '': '' @ take 200 body))
          else Inr (JObject [])
      | Some data \<Rightarrow>
          if \<not> ok res
          then
            (let detail =
               nullish_or
                 (nullish_or (opt_prop (Some data) ''detail'') (opt_prop (Some data) ''title''))
                 (Some (JString (JSON_stringify rt data)))
             in Inl (Error (''X API error '' @ string_of_nat (status res) @ '': ''
                            @ template_string rt detail)))
          else Inr data)"

section \<open>The request executor\<close>

text \<open>
  The world outside one client: \<open>net\<close> gives the outcome of the \<open>i\<close>-th call of \<open>fetch\<close>
  (\<open>None\<close> when the promise rejects), \<open>nonces\<close> the nonce the OAuth library draws for it,
  \<open>clock\<close> is \<open>Date.now()\<close>, which a sleep moves on by the time slept. The requests
  handed to \<open>fetch\<close>, the calls of the
  \<open>onRateLimit\<close> callback (the wait and the retry number its message is formatted from)
  and the waits that were slept are recorded, oldest first.
\<close>

record fetch_request =
  fr_method :: request_method
  fr_url :: string
  fr_headers :: "(string \<times> string) list"
  fr_body :: "string option"

record world =
  net :: "nat \<Rightarrow> response option"
  nonces :: "nat \<Rightarrow> string"
  clock :: int
  sent :: "fetch_request list"
  notified :: "(inum \<times> int) list"
  slept :: "inum list"

record client =
  client_credentials :: credentials
  has_onRateLimit :: bool

definition fetch :: "fetch_request \<Rightarrow> world \<Rightarrow> response option \<times> world" where
  "fetch rq w = (net w (length (sent w)), w\<lparr>sent := sent w @ [rq]\<rparr>)"

definition notify :: "client \<Rightarrow> inum \<Rightarrow> int \<Rightarrow> world \<Rightarrow> world" where
  "notify c waitMs retry w =
     (if has_onRateLimit c then w\<lparr>notified := notified w @ [(waitMs, retry)]\<rparr> else w)"

text \<open>
  \<open>XClient.sleep\<close>. A timer of \<open>setTimeout\<close> runs for its delay; a delay that is not
  within 1 to \<open>2^31 - 1\<close> milliseconds is taken as 1.
\<close>

definition timer_delay :: "inum \<Rightarrow> int" where
  "timer_delay ms =
     (case ms of
        Fin n \<Rightarrow> if 1 \<le> n \<and> n \<le> 2147483647 then n else 1
      | _ \<Rightarrow> 1)"

definition sleep :: "inum \<Rightarrow> world \<Rightarrow> world" where
  "sleep ms w =
     (if js_le ms (Fin 0) then w
      else w\<lparr>clock := clock w + timer_delay ms, slept := slept w @ [ms]\<rparr>)"

definition signed_request ::
  "'n runtime \<Rightarrow> client \<Rightarrow> request_method \<Rightarrow> string \<Rightarrow> ('n::zero) json option
     \<Rightarrow> string \<Rightarrow> int \<Rightarrow> fetch_request" where
  "signed_request rt c meth url body nonce timestamp =
     (let authHeader =
            [(''Authorization'', oauth_header rt (client_credentials c) meth url nonce timestamp)];
          headers = authHeader @ [(''Content-Type'', ''application/json'')]
      in \<lparr>fr_method = meth, fr_url = url, fr_headers = headers,
          fr_body = (case body of
                       None \<Rightarrow> None
                     | Some b \<Rightarrow> if truthy (Some b) then Some (JSON_stringify rt b) else None)\<rparr>)"

text \<open>\<open>XClient.request\<close>; \<open>retryCount\<close> is 0 when the caller leaves it out.\<close>

function request ::
  "'n runtime \<Rightarrow> client \<Rightarrow> request_method \<Rightarrow> string \<Rightarrow> ('n::zero) json option
     \<Rightarrow> int \<Rightarrow> world \<Rightarrow> (js_error + 'n json) \<times> world" where
  "request rt c meth url body retryCount w =
     (case fetch (signed_request rt c meth url body
                    (nonces w (length (sent w))) (clock w div 1000)) w of
        (None, w1) \<Rightarrow> (Inl TransportError, w1)
      | (Some res, w1) \<Rightarrow>
          if status res = 429 \<and> retryCount < MAX_RATE_LIMIT_RETRIES
          then
            (let waitMs = getRateLimitWaitMs (reset_header res) (clock w1);
                 w2 = notify c waitMs (retryCount + 1) w1;
                 w3 = sleep waitMs w2
             in request rt c meth url body (retryCount + 1) w3)
          else (parseResponse rt res, w1))"
  by pat_completeness auto
termination
  by (relation "measure (\<lambda>(rt, c, meth, url, body, retryCount, w).
        nat (MAX_RATE_LIMIT_RETRIES - retryCount))") auto

declare request.simps [simp del]

section \<open>Resource methods\<close>

definition BASE_URL :: string where
  "BASE_URL = ''https://api.x.com/2''"

text \<open>The truth value of an optional string argument: \<open>undefined\<close> and \<open>""\<close> are falsy.\<close>

definition str_truthy :: "string option \<Rightarrow> bool" where
  "str_truthy s = (case s of None \<Rightarrow> False | Some x \<Rightarrow> x \<noteq> [])"

text \<open>
  \<open>URLSearchParams\<close>: an ordered list of pairs; \<open>set\<close> overwrites the first pair of the
  name and drops the others, or appends; \<open>toString\<close> is the form-urlencoded serialisation:
  each code unit is written in UTF-8 (two bytes from 128 on) and every byte but the
  letters, the digits and \<open>*-._\<close> is percent-encoded, a space being \<open>+\<close>.
\<close>

definition hex_char :: "nat \<Rightarrow> char" where
  "hex_char d =
     (if d < 10 then digit_char d
      else if d = 10 then CHR ''A'' else if d = 11 then CHR ''B'' else if d = 12 then CHR ''C''
      else if d = 13 then CHR ''D'' else if d = 14 then CHR ''E'' else CHR ''F'')"

definition is_alnum :: "char \<Rightarrow> bool" where
  "is_alnum c =
     (let n = (of_char c :: nat)
      in (48 \<le> n \<and> n \<le> 57) \<or> (65 \<le> n \<and> n \<le> 90) \<or> (97 \<le> n \<and> n \<le> 122))"

definition percent_byte :: "nat \<Rightarrow> string" where
  "percent_byte b = [CHR ''%'', hex_char (b div 16), hex_char (b mod 16)]"

definition urlencode_char :: "char \<Rightarrow> string" where
  "urlencode_char c =
     (let n = (of_char c :: nat) in
      if 128 \<le> n then percent_byte (192 + n div 64) @ percent_byte (128 + n mod 64)
      else if c = CHR '' '' then ''+''
      else if is_alnum c \<or> c \<in> set ''*-._'' then [c]
      else percent_byte n)"

definition urlencode :: "string \<Rightarrow> string" where
  "urlencode s = concat (map urlencode_char s)"

fun join :: "string \<Rightarrow> string list \<Rightarrow> string" where
  "join sep [] = []"
| "join sep [x] = x"
| "join sep (x # y # ys) = x @ sep @ join sep (y # ys)"



text \<open>What a method does with the envelope once \<open>request\<close> has resolved.\<close>

definition and_then ::
  "(js_error + 'a) \<times> world \<Rightarrow> ('a \<Rightarrow> js_error + 'b) \<Rightarrow> (js_error + 'b) \<times> world" where
  "and_then r f = (case r of (Inl e, w) \<Rightarrow> (Inl e, w) | (Inr x, w) \<Rightarrow> (f x, w))"

text \<open>\<open>Boolean(res.data?.k)\<close>\<close>

definition data_flag :: "('n::zero) json \<Rightarrow> string \<Rightarrow> js_error + bool" where
  "data_flag res k =
     (case get_prop (Some res) ''data'' of
        Inl e \<Rightarrow> Inl e
      | Inr d \<Rightarrow> Inr (truthy (opt_prop d k)))"

text \<open>\<open>if (!res.data) throw new Error(msg); return res.data\<close>\<close>

definition data_or_throw :: "('n::zero) json \<Rightarrow> string \<Rightarrow> js_error + 'n json option" where
  "data_or_throw res msg =
     (case get_prop (Some res) ''data'' of
        Inl e \<Rightarrow> Inl e
      | Inr d \<Rightarrow> if \<not> truthy d then Inl (Error msg) else Inr d)"

definition createPost_body :: "string \<Rightarrow> string option \<Rightarrow> string option \<Rightarrow> 'n json" where
  "createPost_body post_text replyTo quoteTweetId =
     (let body = [(''text'', JString post_text)];
          body1 = (case replyTo of
                     None \<Rightarrow> body
                   | Some r \<Rightarrow>
                       if r \<noteq> []
                       then body @ [(''reply'', JObject [(''in_reply_to_tweet_id'', JString r)])]
                       else body);
          body2 = (case quoteTweetId of
                     None \<Rightarrow> body1
                   | Some q \<Rightarrow> if q \<noteq> [] then body1 @ [(''quote_tweet_id'', JString q)] else body1)
      in JObject body2)"

definition createPost ::
  "'n runtime \<Rightarrow> client \<Rightarrow> string \<Rightarrow> string option \<Rightarrow> string option \<Rightarrow> world
     \<Rightarrow> (js_error + ('n::zero) json option) \<times> world" where
  "createPost rt c post_text replyTo quoteTweetId w =
     and_then
       (request rt c POST (BASE_URL @ ''/tweets'')
          (Some (createPost_body post_text replyTo quoteTweetId)) 0 w)
       (\<lambda>res. data_or_throw res ''X API returned no post data.'')"

definition deletePost ::
  "('n::zero) runtime \<Rightarrow> client \<Rightarrow> string \<Rightarrow> world \<Rightarrow> (js_error + bool) \<times> world" where
  "deletePost rt c post_id w =
     and_then (request rt c DELETE (BASE_URL @ ''/tweets/'' @ post_id) None 0 w)
       (\<lambda>res. data_flag res ''deleted'')"

definition me ::
  "'n runtime \<Rightarrow> client \<Rightarrow> world \<Rightarrow> (js_error + ('n::zero) json option) \<times> world" where
  "me rt c w =
     and_then
       (request rt c GET
          (BASE_URL @ ''/users/me?user.fields=id,name,username,description,public_metrics'')
          None 0 w)
       (\<lambda>res. data_or_throw res ''X API returned no authenticated user data.'')"

definition getUser ::
  "'n runtime \<Rightarrow> client \<Rightarrow> string \<Rightarrow> world \<Rightarrow> (js_error + ('n::zero) json option) \<times> world" where
  "getUser rt c username w =
     and_then
       (request rt c GET
          (BASE_URL @ ''/users/by/username/'' @ username
             @ ''?user.fields=id,name,username,description,public_metrics'')
          None 0 w)
       (\<lambda>res. data_or_throw res (''X API returned no user data for @'' @ username @ ''.''))"







definition like ::
  "('n::zero) runtime \<Rightarrow> client \<Rightarrow> string \<Rightarrow> string \<Rightarrow> world \<Rightarrow> (js_error + bool) \<times> world" where
  "like rt c userId tweetId w =
     and_then
       (request rt c POST (BASE_URL @ ''/users/'' @ userId @ ''/likes'')
          (Some (JObject [(''tweet_id'', JString tweetId)])) 0 w)
       (\<lambda>res. data_flag res ''liked'')"

definition unlike ::
  "('n::zero) runtime \<Rightarrow> client \<Rightarrow> string \<Rightarrow> string \<Rightarrow> world \<Rightarrow> (js_error + bool) \<times> world" where
  "unlike rt c userId tweetId w =
     and_then
       (request rt c DELETE (BASE_URL @ ''/users/'' @ userId @ ''/likes/'' @ tweetId)
          None 0 w)
       (\<lambda>res. case data_flag res ''liked'' of Inl e \<Rightarrow> Inl e | Inr b \<Rightarrow> Inr (\<not> b))"

definition retweet ::
  "('n::zero) runtime \<Rightarrow> client \<Rightarrow> string \<Rightarrow> string \<Rightarrow> world \<Rightarrow> (js_error + bool) \<times> world" where
  "retweet rt c userId tweetId w =
     and_then
       (request rt c POST (BASE_URL @ ''/users/'' @ userId @ ''/retweets'')
          (Some (JObject [(''tweet_id'', JString tweetId)])) 0 w)
       (\<lambda>res. data_flag res ''retweeted'')"

definition follow ::
  "('n::zero) runtime \<Rightarrow> client \<Rightarrow> string \<Rightarrow> string \<Rightarrow> world \<Rightarrow> (js_error + bool) \<times> world" where
  "follow rt c sourceUserId targetUserId w =
     and_then
       (request rt c POST (BASE_URL @ ''/users/'' @ sourceUserId @ ''/following'')
          (Some (JObject [(''target_user_id'', JString targetUserId)])) 0 w)
       (\<lambda>res. data_flag res ''following'')"

definition unfollow ::
  "('n::zero) runtime \<Rightarrow> client \<Rightarrow> string \<Rightarrow> string \<Rightarrow> world \<Rightarrow> (js_error + bool) \<times> world" where
  "unfollow rt c sourceUserId targetUserId w =
     and_then
       (request rt c DELETE
          (BASE_URL @ ''/users/'' @ sourceUserId @ ''/following/'' @ targetUserId)
          None 0 w)
       (\<lambda>res. case data_flag res ''following'' of Inl e \<Rightarrow> Inl e | Inr b \<Rightarrow> Inr (\<not> b))"

section \<open>Credential loading\<close>

text \<open>
  \<open>process.env\<close> is a map from names to strings. The config file, when \<open>existsSync\<close>
  finds it, has a mode (\<open>None\<close> when \<open>statSync\<close> throws) and a content (\<open>None\<close> when
  \<open>readFileSync\<close> throws).
\<close>

type_synonym env = "string \<Rightarrow> string option"

record config_file =
  cf_mode :: "nat option"
  cf_content :: "string option"

datatype warning = WorldReadable string

text \<open>\<open>content.split("\n")\<close>\<close>

fun split_lines :: "string \<Rightarrow> string list" where
  "split_lines [] = [[]]"
| "split_lines (c # cs) =
     (if c = CHR 0x0A then [] # split_lines cs
      else (case split_lines cs of [] \<Rightarrow> [[c]] | l # ls \<Rightarrow> (c # l) # ls))"

text \<open>
  The two regular expressions of the loop. \<open>skip_line\<close> is the test of
  \<open>/^\s*(#|$)/\<close>. \<open>match_line\<close> gives the two groups of
  \<open>/^\s*([A-Z_][A-Z0-9_]*)\s*=\s*(.+?)(?:\s+#.*)?$/\<close>: after the equals sign the
  matcher first lets \<open>\s*\<close> take all the white space, then gives it back one character at
  a time (\<open>match_from\<close>); the lazy group grows from one character (\<open>try_value\<close>) until what
  follows is the end of the line or white space, \<open>#\<close> and the rest of the line (\<open>tail_ok\<close>).
  The dot matches no line terminator.
\<close>

definition is_dot :: "char \<Rightarrow> bool" where
  "is_dot c = (c \<noteq> CHR 0x0A \<and> c \<noteq> CHR 0x0D)"

definition key_start :: "char \<Rightarrow> bool" where
  "key_start c = (c = CHR ''_'' \<or> (65 \<le> (of_char c :: nat) \<and> (of_char c :: nat) \<le> 90))"

definition key_char :: "char \<Rightarrow> bool" where
  "key_char c = (key_start c \<or> is_digit c)"

definition skip_line :: "string \<Rightarrow> bool" where
  "skip_line line = (case dropWhile is_space line of [] \<Rightarrow> True | c # _ \<Rightarrow> c = CHR ''#'')"

definition tail_ok :: "string \<Rightarrow> bool" where
  "tail_ok t =
     (t = [] \<or>
      (case t of
         [] \<Rightarrow> False
       | s # _ \<Rightarrow>
           is_space s \<and>
           (case dropWhile is_space t of
              [] \<Rightarrow> False
            | c # cs \<Rightarrow> c = CHR ''#'' \<and> list_all is_dot cs)))"

fun try_value :: "string \<Rightarrow> string \<Rightarrow> string option" where
  "try_value acc [] = None"
| "try_value acc (c # cs) =
     (if \<not> is_dot c then None
      else if tail_ok cs then Some (acc @ [c])
      else try_value (acc @ [c]) cs)"

fun match_from :: "nat \<Rightarrow> string \<Rightarrow> string option" where
  "match_from 0 r = try_value [] r"
| "match_from (Suc k) r =
     (case try_value [] (drop (Suc k) r) of
        Some v \<Rightarrow> Some v
      | None \<Rightarrow> match_from k r)"

definition match_value :: "string \<Rightarrow> string option" where
  "match_value r = match_from (length (takeWhile is_space r)) r"

definition match_line :: "string \<Rightarrow> (string \<times> string) option" where
  "match_line line =
     (let l1 = dropWhile is_space line in
      case l1 of
        [] \<Rightarrow> None
      | c # _ \<Rightarrow>
          if \<not> key_start c then None
          else
            (case dropWhile is_space (dropWhile key_char l1) of
               [] \<Rightarrow> None
             | e # r \<Rightarrow>
                 if e \<noteq> CHR ''='' then None
                 else (case match_value r of
                         None \<Rightarrow> None
                       | Some v \<Rightarrow> Some (takeWhile key_char l1, v))))"

text \<open>The loop over the lines: a variable is written only where \<open>!process.env[name]\<close>.\<close>

fun merge_lines :: "string list \<Rightarrow> env \<Rightarrow> env" where
  "merge_lines [] env = env"
| "merge_lines (line # ls) env =
     (if skip_line line then merge_lines ls env
      else (case match_line line of
              None \<Rightarrow> merge_lines ls env
            | Some (k, v) \<Rightarrow>
                if \<not> str_truthy (env k) then merge_lines ls (env(k \<mapsto> v))
                else merge_lines ls env))"

text \<open>\<open>a ?? b\<close> on two variables of the environment.\<close>

definition env_or :: "string option \<Rightarrow> string option \<Rightarrow> string option" where
  "env_or a b = (case a of None \<Rightarrow> b | Some x \<Rightarrow> Some x)"

definition missing_message :: "string list \<Rightarrow> string" where
  "missing_message missing =
     ''Missing credentials: '' @ join '', '' missing @ [CHR 0x0A]
       @ ''Set them as environment variables or in .env / ~/.config/twx-cli/.env''"

text \<open>The second half of \<open>loadCredentials\<close>, on the environment after the merge.\<close>

definition read_credentials :: "env \<Rightarrow> js_error + credentials" where
  "read_credentials env =
     (let apiKey = env_or (env ''X_API_KEY'') (env ''TWITTER_API_KEY'');
          apiSecret = env_or (env ''X_API_SECRET'') (env ''TWITTER_API_SECRET'');
          accessToken = env_or (env ''X_ACCESS_TOKEN'') (env ''TWITTER_ACCESS_TOKEN'');
          accessTokenSecret =
            env_or (env ''X_ACCESS_TOKEN_SECRET'') (env ''TWITTER_ACCESS_TOKEN_SECRET'');
          bearerToken = env_or (env ''X_BEARER_TOKEN'') (env ''TWITTER_BEARER_TOKEN'')
      in if \<not> str_truthy apiKey \<or> \<not> str_truthy apiSecret \<or> \<not> str_truthy accessToken
            \<or> \<not> str_truthy accessTokenSecret
         then
           (let missing =
                  (if \<not> str_truthy apiKey then [''X_API_KEY''] else [])
                  @ (if \<not> str_truthy apiSecret then [''X_API_SECRET''] else [])
                  @ (if \<not> str_truthy accessToken then [''X_ACCESS_TOKEN''] else [])
                  @ (if \<not> str_truthy accessTokenSecret then [''X_ACCESS_TOKEN_SECRET''] else [])
            in Inl (Error (missing_message missing)))
         else Inr \<lparr>apiKey = the apiKey, apiSecret = the apiSecret,
                   accessToken = the accessToken, accessTokenSecret = the accessTokenSecret,
                   bearerToken = bearerToken\<rparr>)"

text \<open>
  \<open>loadCredentials\<close>: the result, the environment it leaves and the warnings it prints.
  \<open>configPath\<close> is the resolved path of the config file.
\<close>

definition loadCredentials ::
  "string \<Rightarrow> config_file option \<Rightarrow> env \<Rightarrow> (js_error + credentials) \<times> env \<times> warning list" where
  "loadCredentials configPath file env =
     (case file of
        None \<Rightarrow> (read_credentials env, env, [])
      | Some f \<Rightarrow>
          (let warnings =
                 (case cf_mode f of
                    None \<Rightarrow> []
                  | Some mode \<Rightarrow> if mode AND 4 \<noteq> 0 then [WorldReadable configPath] else [])
           in case cf_content f of
                None \<Rightarrow> (Inl ReadError, env, warnings)
              | Some content \<Rightarrow>
                  (let env' = merge_lines (split_lines content) env
                   in (read_credentials env', env', warnings))))"

section \<open>Notions used in the statements\<close>


text \<open>
  One round of \<open>request\<close>: \<open>attempt\<close> is the world after the signed request has gone to
  \<open>fetch\<close>, \<open>backoff\<close> the world after the notification and the sleep that follow a 429.
\<close>

definition attempt ::
  "'n runtime \<Rightarrow> client \<Rightarrow> request_method \<Rightarrow> string \<Rightarrow> ('n::zero) json option \<Rightarrow> world \<Rightarrow> world" where
  "attempt rt c meth url body w =
     snd (fetch (signed_request rt c meth url body
                   (nonces w (length (sent w))) (clock w div 1000)) w)"

definition backoff :: "client \<Rightarrow> response \<Rightarrow> int \<Rightarrow> world \<Rightarrow> world" where
  "backoff c res retryCount w1 =
     sleep (getRateLimitWaitMs (reset_header res) (clock w1))
       (notify c (getRateLimitWaitMs (reset_header res) (clock w1)) (retryCount + 1) w1)"

text \<open>
  The value of the boolean field \<open>k\<close> of \<open>data\<close> in an envelope, read off the JSON value
  itself: an absent field, an absent \<open>data\<close> and a \<open>data\<close> that is no object are false, a
  boolean is its value, and any other value counts as \<open>Boolean\<close> counts it.
\<close>

definition field_value :: "('n::zero) json \<Rightarrow> string \<Rightarrow> bool" where
  "field_value res k =
     (case res of
        JObject kvs \<Rightarrow>
          (case map_of kvs ''data'' of
             Some (JObject d) \<Rightarrow>
               (case map_of d k of
                  None \<Rightarrow> False
                | Some JNull \<Rightarrow> False
                | Some (JBool b) \<Rightarrow> b
                | Some (JNumber n) \<Rightarrow> n \<noteq> 0
                | Some (JString s) \<Rightarrow> s \<noteq> []
                | Some (JArray xs) \<Rightarrow> True
                | Some (JObject fs) \<Rightarrow> True)
           | _ \<Rightarrow> False)
      | _ \<Rightarrow> False)"

text \<open>The \<open>data\<close> field of an envelope, read off the JSON value itself.\<close>

definition envelope_data :: "'n json \<Rightarrow> 'n json option" where
  "envelope_data res = (case res of JObject kvs \<Rightarrow> map_of kvs ''data'' | _ \<Rightarrow> None)"

text \<open>Two worlds that differ at most in the bodies of the requests sent so far.\<close>

definition same_but_bodies :: "world \<Rightarrow> world \<Rightarrow> bool" where
  "same_but_bodies w w' =
     (net w = net w' \<and> nonces w = nonces w' \<and> clock w = clock w'
      \<and> map fr_headers (sent w) = map fr_headers (sent w')
      \<and> notified w = notified w' \<and> slept w = slept w')"

section \<open>Sample inputs\<close>

text \<open>
  A small runtime over integer numbers: \<open>sample_stringify\<close> writes JSON without escapes,
  \<open>sample_parse\<close> reads back the texts of \<open>sample_values\<close> and throws on every other text;
  a fraction is written with one decimal digit; the header stands in for the HMAC-SHA1
  signature.
\<close>

definition dq :: string where
  "dq = [CHR 0x22]"

fun sample_stringify :: "int json \<Rightarrow> string" where
  "sample_stringify JNull = ''null''"
| "sample_stringify (JBool b) = (if b then ''true'' else ''false'')"
| "sample_stringify (JNumber n) = string_of_int n"
| "sample_stringify (JString s) = dq @ s @ dq"
| "sample_stringify (JArray xs) = ''['' @ join '','' (map sample_stringify xs) @ '']''"
| "sample_stringify (JObject kvs) =
     ''{'' @ join '','' (map (\<lambda>(k, v). dq @ k @ dq @ '':'' @ sample_stringify v) kvs) @ ''}''"

definition sample_values :: "int json list" where
  "sample_values =
     [JNull,
      JObject [(''data'', JObject [])],
      JObject [(''data'', JObject [(''liked'', JBool False)])],
      JObject [(''data'', JObject [(''liked'', JBool True)])],
      JObject [(''data'', JObject [(''id'', JString ''123''), (''text'', JString ''hello'')])],
      JObject [(''title'', JString ''Unauthorized''), (''detail'', JString ''Bad token'')],
      JObject [(''meta'', JObject [(''result_count'', JNumber 0)])]]"

definition sample_parse :: "string \<Rightarrow> int json option" where
  "sample_parse s = map_of (map (\<lambda>j. (sample_stringify j, j)) sample_values) s"

definition sample_runtime :: "int runtime" where
  "sample_runtime =
     \<lparr>JSON_parse = sample_parse,
      JSON_stringify = sample_stringify,
      ToString = (\<lambda>v. case v of JNumber n \<Rightarrow> string_of_int n | _ \<Rightarrow> ''[object Object]''),
      Number_toString = (\<lambda>q. string_of_int \<lfloor>q\<rfloor> @ ''.''
         @ string_of_int \<lfloor>(q - of_int \<lfloor>q\<rfloor>) * 10\<rfloor>),
      oauth_header = (\<lambda>cr meth url nonce timestamp.
         ''OAuth '' @ apiKey cr @ '','' @ accessToken cr @ '','' @ url @ '','' @ nonce @ '',''
           @ string_of_int timestamp)\<rparr>"

definition sample_client :: client where
  "sample_client =
     \<lparr>client_credentials =
        \<lparr>apiKey = ''ck'', apiSecret = ''cs'', accessToken = ''tk'', accessTokenSecret = ''ts'',
         bearerToken = None\<rparr>,
      has_onRateLimit = True\<rparr>"

text \<open>A world that answers with the given responses in turn and then fails.\<close>

definition world_of :: "response list \<Rightarrow> world" where
  "world_of rs =
     \<lparr>net = (\<lambda>i. if i < length rs then Some (rs ! i) else None),
      nonces = (\<lambda>i. ''nonce'' @ string_of_nat i),
      clock = 1700000000000,
      sent = [],
      notified = [],
      slept = []\<rparr>"

definition reply :: "nat \<Rightarrow> string \<Rightarrow> response" where
  "reply code body = \<lparr>status = code, reset_header = None, body_text = body\<rparr>"

text \<open>A config file with a comment line and an inline comment.\<close>

definition sample_config :: string where
  "sample_config =
     ''# twx-cli'' @ [CHR 0x0A] @ ''X_API_KEY=ck'' @ [CHR 0x0A] @ ''X_API_SECRET = cs # secret''
       @ [CHR 0x0A] @ ''X_ACCESS_TOKEN=tk'' @ [CHR 0x0A] @ ''X_ACCESS_TOKEN_SECRET=ts''
       @ [CHR 0x0A]"

section \<open>Properties of the backoff wait\<close>

lemma to_double_exact: "\<bar>n\<bar> < 2 ^ 53 \<Longrightarrow> to_double n = Fin n"
  by (simp add: to_double_def)

lemma to_double_not_NaN: "to_double n \<noteq> NaN"
  by (simp add: to_double_def Let_def)

lemma Number_parseInt_empty: "Number_parseInt [] = NaN"
  by (simp add: Number_parseInt_def)

lemma js_mul_1000_not_NaN: "x \<noteq> NaN \<Longrightarrow> js_mul x (Fin 1000) \<noteq> NaN"
  by (cases x) (simp_all add: js_mul_def js_sign_def to_double_not_NaN)

lemma js_sub_Fin_not_NaN: "x \<noteq> NaN \<Longrightarrow> js_sub x (Fin t) \<noteq> NaN"
  by (cases x) (simp_all add: js_sub_def to_double_not_NaN)

lemma Math_max_0: "x \<noteq> NaN \<Longrightarrow> Math_max x (Fin 0) \<noteq> NaN \<and> js_le (Fin 0) (Math_max x (Fin 0))"
  by (cases x) (simp_all add: Math_max_def js_le_def js_less_def)

lemma getRateLimitWaitMs_parsed:
  "Number_parseInt h \<noteq> NaN \<Longrightarrow>
   getRateLimitWaitMs (Some h) now
     = Math_max
         (js_sub (if js_less (Fin (10 ^ 12)) (Number_parseInt h) then Number_parseInt h
                  else js_mul (Number_parseInt h) (Fin 1000))
            (Fin now))
         (Fin 0)"
  using Number_parseInt_empty by (auto simp: getRateLimitWaitMs_def Let_def)

lemma getRateLimitWaitMs_exact:
  assumes "Number_parseInt h = Fin n"
    and "\<bar>if 10 ^ 12 < n then n else n * 1000\<bar> < 2 ^ 53"
    and "\<bar>(if 10 ^ 12 < n then n else n * 1000) - now\<bar> < 2 ^ 53"
  shows "getRateLimitWaitMs (Some h) now
     = Fin (max ((if 10 ^ 12 < n then n else n * 1000) - now) 0)"
proof (cases "10 ^ 12 < n")
  case True
  with assms show ?thesis
    by (simp add: getRateLimitWaitMs_parsed js_less_def js_sub_def to_double_exact Math_max_def
        max_def)
next
  case False
  with assms show ?thesis
    by (simp add: getRateLimitWaitMs_parsed js_less_def js_mul_def js_sub_def to_double_exact
        Math_max_def max_def)
qed

text \<open>
  Claim C2. The backoff wait of a 429 response: with the \<open>x-rate-limit-reset\<close> header
  absent, or not parsing as an integer, the wait is exactly 1000 ms; with a parsed value
  \<open>R\<close> the reset instant is \<open>R\<close> when \<open>R\<close> exceeds \<open>10^12\<close> and \<open>R * 1000\<close> otherwise, and
  the wait is the maximum of reset instant minus now and 0, all in the arithmetic of
  doubles. Where the reset instant and its distance from now are below \<open>2^53\<close> that
  arithmetic is exact; so a header in seconds that lies in the future gives
  \<open>R * 1000 - now\<close>. The wait is never negative (and never NaN).
\<close>

theorem getRateLimitWaitMs_spec:
  "(resetHeader = None \<or> (\<exists>h. resetHeader = Some h \<and> Number_parseInt h = NaN)
      \<longrightarrow> getRateLimitWaitMs resetHeader now = Fin 1000)
   \<and> (\<forall>h. resetHeader = Some h \<and> Number_parseInt h \<noteq> NaN
      \<longrightarrow> getRateLimitWaitMs resetHeader now
            = Math_max
                (js_sub (if js_less (Fin (10 ^ 12)) (Number_parseInt h) then Number_parseInt h
                         else js_mul (Number_parseInt h) (Fin 1000))
                   (Fin now))
                (Fin 0))
   \<and> (\<forall>h n. resetHeader = Some h \<and> Number_parseInt h = Fin n
        \<and> \<bar>if 10 ^ 12 < n then n else n * 1000\<bar> < 2 ^ 53
        \<and> \<bar>(if 10 ^ 12 < n then n else n * 1000) - now\<bar> < 2 ^ 53
      \<longrightarrow> getRateLimitWaitMs resetHeader now
            = Fin (max ((if 10 ^ 12 < n then n else n * 1000) - now) 0))
   \<and> (\<forall>h n. resetHeader = Some h \<and> Number_parseInt h = Fin n \<and> n \<le> 10 ^ 12
        \<and> 0 \<le> now \<and> now < n * 1000
      \<longrightarrow> getRateLimitWaitMs resetHeader now = Fin (n * 1000 - now))
   \<and> getRateLimitWaitMs resetHeader now \<noteq> NaN
   \<and> js_le (Fin 0) (getRateLimitWaitMs resetHeader now)"
proof (intro conjI allI impI)
  assume "resetHeader = None \<or> (\<exists>h. resetHeader = Some h \<and> Number_parseInt h = NaN)"
  then show "getRateLimitWaitMs resetHeader now = Fin 1000"
    by (auto simp: getRateLimitWaitMs_def DEFAULT_RATE_LIMIT_WAIT_MS_def)
next
  fix h
  assume "resetHeader = Some h \<and> Number_parseInt h \<noteq> NaN"
  then show "getRateLimitWaitMs resetHeader now
            = Math_max
                (js_sub (if js_less (Fin (10 ^ 12)) (Number_parseInt h) then Number_parseInt h
                         else js_mul (Number_parseInt h) (Fin 1000))
                   (Fin now))
                (Fin 0)"
    by (simp add: getRateLimitWaitMs_parsed)
next
  fix h n
  assume "resetHeader = Some h \<and> Number_parseInt h = Fin n
        \<and> \<bar>if 10 ^ 12 < n then n else n * 1000\<bar> < 2 ^ 53
        \<and> \<bar>(if 10 ^ 12 < n then n else n * 1000) - now\<bar> < 2 ^ 53"
  then show "getRateLimitWaitMs resetHeader now
            = Fin (max ((if 10 ^ 12 < n then n else n * 1000) - now) 0)"
    using getRateLimitWaitMs_exact [of h n now] by blast
next
  fix h n
  assume a: "resetHeader = Some h \<and> Number_parseInt h = Fin n \<and> n \<le> 10 ^ 12
        \<and> 0 \<le> now \<and> now < n * 1000"
  then have "\<bar>if 10 ^ 12 < n then n else n * 1000\<bar> < 2 ^ 53"
    and "\<bar>(if 10 ^ 12 < n then n else n * 1000) - now\<bar> < 2 ^ 53"
    by simp_all
  with a getRateLimitWaitMs_exact [of h n now]
  show "getRateLimitWaitMs resetHeader now = Fin (n * 1000 - now)"
    by (simp add: max_def)
next
  have "getRateLimitWaitMs resetHeader now \<noteq> NaN
      \<and> js_le (Fin 0) (getRateLimitWaitMs resetHeader now)"
  proof (cases "resetHeader = None \<or> (\<exists>h. resetHeader = Some h \<and> Number_parseInt h = NaN)")
    case True
    then have "getRateLimitWaitMs resetHeader now = Fin 1000"
      by (auto simp: getRateLimitWaitMs_def DEFAULT_RATE_LIMIT_WAIT_MS_def)
    then show ?thesis
      by (simp add: js_le_def js_less_def)
  next
    case False
    then obtain h where h: "resetHeader = Some h" "Number_parseInt h \<noteq> NaN"
      by (cases resetHeader) auto
    let ?r = "if js_less (Fin (10 ^ 12)) (Number_parseInt h) then Number_parseInt h
              else js_mul (Number_parseInt h) (Fin 1000)"
    have "?r \<noteq> NaN"
      using h(2) by (simp add: js_mul_1000_not_NaN)
    then have "js_sub ?r (Fin now) \<noteq> NaN"
      by (rule js_sub_Fin_not_NaN)
    then show ?thesis
      using h Math_max_0 [of "js_sub ?r (Fin now)"] by (simp add: getRateLimitWaitMs_parsed)
  qed
  then show "getRateLimitWaitMs resetHeader now \<noteq> NaN"
    and "js_le (Fin 0) (getRateLimitWaitMs resetHeader now)"
    by simp_all
qed

theorem getRateLimitWaitMs_spec_witness:
  "Number_parseInt ''1700000000'' = Fin 1700000000
   \<and> getRateLimitWaitMs (Some ''1700000000'') 1699999999000 = Fin 1000
   \<and> Number_parseInt ''soon'' = NaN
   \<and> getRateLimitWaitMs (Some ''soon'') 5 = Fin 1000
   \<and> Number_parseInt ''9007199254740993'' = Fin 9007199254740992
   \<and> getRateLimitWaitMs (Some ''9007199254740993'') 9007199254740992 = Fin 0"
proof -
  have p1: "Number_parseInt ''1700000000'' = Fin 1700000000"
    by (simp add: Number_parseInt_def is_space_def is_digit_def digit_val_def to_double_def)
  have p2: "Number_parseInt ''soon'' = NaN"
    by (simp add: Number_parseInt_def is_space_def is_digit_def)
  have p3: "Number_parseInt ''9007199254740993'' = Fin 9007199254740992"
    by (simp add: Number_parseInt_def is_space_def is_digit_def digit_val_def to_double_def
        shift_of.simps Let_def)
  have h1: "Some ''1700000000'' = Some ''1700000000''
      \<and> Number_parseInt ''1700000000'' = Fin 1700000000 \<and> (1700000000 :: int) \<le> 10 ^ 12
      \<and> (0 :: int) \<le> 1699999999000 \<and> (1699999999000 :: int) < 1700000000 * 1000"
    using p1 by simp
  have "getRateLimitWaitMs (Some ''1700000000'') 1699999999000
      = Fin (1700000000 * 1000 - 1699999999000)"
    by (rule getRateLimitWaitMs_spec [of "Some ''1700000000''" 1699999999000,
          THEN conjunct2, THEN conjunct2, THEN conjunct2, THEN conjunct1, rule_format,
          of "''1700000000''" 1700000000, OF h1])
  then have w1: "getRateLimitWaitMs (Some ''1700000000'') 1699999999000 = Fin 1000"
    by simp
  have w2: "getRateLimitWaitMs (Some ''soon'') 5 = Fin 1000"
    using p2 getRateLimitWaitMs_spec [of "Some ''soon''" 5] by simp
  have h3: "Some ''9007199254740993'' = Some ''9007199254740993''
      \<and> Number_parseInt ''9007199254740993'' \<noteq> NaN"
    using p3 by simp
  have "getRateLimitWaitMs (Some ''9007199254740993'') 9007199254740992
      = Math_max
          (js_sub (if js_less (Fin (10 ^ 12)) (Number_parseInt ''9007199254740993'')
                   then Number_parseInt ''9007199254740993''
                   else js_mul (Number_parseInt ''9007199254740993'') (Fin 1000))
             (Fin 9007199254740992))
          (Fin 0)"
    by (rule getRateLimitWaitMs_spec [of "Some ''9007199254740993''" 9007199254740992,
          THEN conjunct2, THEN conjunct1, rule_format, OF h3])
  then have w3: "getRateLimitWaitMs (Some ''9007199254740993'') 9007199254740992 = Fin 0"
    by (simp add: p3 js_less_def js_sub_def to_double_def Math_max_def)
  from p1 p2 p3 w1 w2 w3 show ?thesis
    by simp
qed

section \<open>Properties of the response normalizer\<close>


lemma parseResponse_unparsed:
  "JSON_parse rt (body_text res) = None \<Longrightarrow>
   parseResponse rt res =
     (if ok res then Inr (JObject [])
      else Inl (Error (''X API error '' @ string_of_nat (status res) @ '': ''
                       @ take 200 (body_text res))))"
  by (simp add: parseResponse_def)




text \<open>
  Claim C3. A response whose body does not parse as JSON and whose status is a success
  (2xx) is normalized to the empty envelope \<open>{}\<close>; no error is raised.
\<close>

theorem parseResponse_unparsed_success:
  "JSON_parse rt (body_text res) = None \<Longrightarrow> ok res \<Longrightarrow> parseResponse rt res = Inr (JObject [])"
  by (simp add: parseResponse_unparsed)

theorem parseResponse_unparsed_success_witness:
  "parseResponse sample_runtime (reply 204 []) = Inr (JObject [])"
proof -
  have "JSON_parse sample_runtime (body_text (reply 204 [])) = None"
    by (simp add: sample_runtime_def sample_parse_def sample_values_def reply_def dq_def)
  moreover have "ok (reply 204 [])"
    by (simp add: ok_def reply_def)
  ultimately show ?thesis
    by (rule parseResponse_unparsed_success)
qed



section \<open>Properties of the request executor\<close>

lemma request_unfold:
  "request rt c meth url body retryCount w =
     (case net w (length (sent w)) of
        None \<Rightarrow> (Inl TransportError, attempt rt c meth url body w)
      | Some res \<Rightarrow>
          if status res = 429 \<and> retryCount < 2
          then request rt c meth url body (retryCount + 1)
                 (backoff c res retryCount (attempt rt c meth url body w))
          else (parseResponse rt res, attempt rt c meth url body w))"
  by (subst request.simps)
    (simp add: fetch_def attempt_def backoff_def MAX_RATE_LIMIT_RETRIES_def Let_def
      split: option.splits)

lemma sent_attempt:
  "sent (attempt rt c meth url body w)
     = sent w @ [signed_request rt c meth url body (nonces w (length (sent w))) (clock w div 1000)]"
  by (simp add: attempt_def fetch_def)

lemma length_sent_attempt [simp]:
  "length (sent (attempt rt c meth url body w)) = Suc (length (sent w))"
  by (simp add: sent_attempt)

lemma net_attempt [simp]: "net (attempt rt c meth url body w) = net w"
  by (simp add: attempt_def fetch_def)

lemma sent_backoff [simp]: "sent (backoff c res rc w) = sent w"
  by (simp add: backoff_def sleep_def notify_def)

lemma net_backoff [simp]: "net (backoff c res rc w) = net w"
  by (simp add: backoff_def sleep_def notify_def)

lemma request_retry:
  "net w (length (sent w)) = Some res \<Longrightarrow> status res = 429 \<Longrightarrow> retryCount < 2 \<Longrightarrow>
   request rt c meth url body retryCount w
     = request rt c meth url body (retryCount + 1)
         (backoff c res retryCount (attempt rt c meth url body w))"
  by (subst request_unfold) simp

lemma request_final:
  "net w (length (sent w)) = Some res \<Longrightarrow> \<not> (status res = 429 \<and> retryCount < 2) \<Longrightarrow>
   request rt c meth url body retryCount w
     = (parseResponse rt res, attempt rt c meth url body w)"
  by (subst request_unfold) auto

lemma request_transport:
  "net w (length (sent w)) = None \<Longrightarrow>
   request rt c meth url body retryCount w
     = (Inl TransportError, attempt rt c meth url body w)"
  by (subst request_unfold) simp

lemma request_fetches:
  "length (sent (snd (request rt c meth url body retryCount w)))
     \<le> length (sent w) + 1 + nat (2 - retryCount)
   \<and> length (sent w) < length (sent (snd (request rt c meth url body retryCount w)))"
proof (induction "nat (2 - retryCount)" arbitrary: retryCount w)
  case 0
  then have no: "\<not> retryCount < 2" by simp
  show ?case
  proof (cases "net w (length (sent w))")
    case None
    then show ?thesis by (simp add: request_transport)
  next
    case (Some res)
    with no show ?thesis by (simp add: request_final)
  qed
next
  case (Suc k)
  then have k: "k = nat (2 - (retryCount + 1))" by simp
  show ?case
  proof (cases "net w (length (sent w))")
    case None
    then show ?thesis by (simp add: request_transport)
  next
    case (Some res)
    show ?thesis
    proof (cases "status res = 429 \<and> retryCount < 2")
      case True
      have "nat (2 - retryCount) = Suc (nat (2 - (retryCount + 1)))"
        using True by linarith
      with Suc.hyps(1) [OF k, of "backoff c res retryCount (attempt rt c meth url body w)"]
      show ?thesis
        using Some True by (simp add: request_retry)
    next
      case False
      then show ?thesis using Some by (simp add: request_final)
    qed
  qed
qed

lemma request_third:
  assumes "net w (length (sent w)) = Some r0" "status r0 = 429"
    and "net w (length (sent w) + 1) = Some r1" "status r1 = 429"
    and "net w (length (sent w) + 2) = Some r2"
  shows "fst (request rt c meth url body 0 w) = parseResponse rt r2"
    and "length (sent (snd (request rt c meth url body 0 w))) = length (sent w) + 3"
proof -
  let ?w1 = "backoff c r0 0 (attempt rt c meth url body w)"
  let ?w2 = "backoff c r1 1 (attempt rt c meth url body ?w1)"
  have e0: "request rt c meth url body 0 w = request rt c meth url body 1 ?w1"
    using assms(1,2) request_retry [of w r0 0 rt c meth url body] by simp
  have "net ?w1 (length (sent ?w1)) = Some r1"
    using assms(3) by simp
  then have e1: "request rt c meth url body 1 ?w1 = request rt c meth url body 2 ?w2"
    using assms(4) request_retry [of ?w1 r1 1 rt c meth url body] by simp
  have "net ?w2 (length (sent ?w2)) = Some r2"
    using assms(5) by simp
  then have e2: "request rt c meth url body 2 ?w2
      = (parseResponse rt r2, attempt rt c meth url body ?w2)"
    using request_final [of ?w2 r2 2 rt c meth url body] by simp
  show "fst (request rt c meth url body 0 w) = parseResponse rt r2"
    by (simp add: e0 e1 e2)
  show "length (sent (snd (request rt c meth url body 0 w))) = length (sent w) + 3"
    by (simp add: e0 e1 e2)
qed

text \<open>
  Claim C1. One call of the request executor retries at most twice, three attempts in
  all. A response is retried only when its status is 429 and the retry counter is below 2;
  on any other status, or on a 429 once the counter has reached 2, the response goes to
  the normalizer and the outcome of that is the outcome of the call. In particular the
  outcome of the third attempt is returned whatever its status. The recursion ends, the
  counter being its measure (the termination proof of \<open>request\<close>).
\<close>

theorem request_retry_bound:
  "(\<forall>res. net w (length (sent w)) = Some res \<and> status res = 429 \<and> retryCount < 2 \<longrightarrow>
       request rt c meth url body retryCount w
         = request rt c meth url body (retryCount + 1)
             (backoff c res retryCount (attempt rt c meth url body w)))
   \<and> (\<forall>res. net w (length (sent w)) = Some res \<and> \<not> (status res = 429 \<and> retryCount < 2) \<longrightarrow>
       request rt c meth url body retryCount w
         = (parseResponse rt res, attempt rt c meth url body w))
   \<and> length (sent (snd (request rt c meth url body 0 w))) \<le> length (sent w) + 3
   \<and> length (sent w) < length (sent (snd (request rt c meth url body 0 w)))
   \<and> (\<forall>r0 r1 r2.
        net w (length (sent w)) = Some r0 \<and> status r0 = 429
        \<and> net w (length (sent w) + 1) = Some r1 \<and> status r1 = 429
        \<and> net w (length (sent w) + 2) = Some r2 \<longrightarrow>
        fst (request rt c meth url body 0 w) = parseResponse rt r2
        \<and> length (sent (snd (request rt c meth url body 0 w))) = length (sent w) + 3)"
proof (intro conjI allI impI)
  fix res
  assume "net w (length (sent w)) = Some res \<and> status res = 429 \<and> retryCount < 2"
  then show "request rt c meth url body retryCount w
         = request rt c meth url body (retryCount + 1)
             (backoff c res retryCount (attempt rt c meth url body w))"
    by (simp add: request_retry)
next
  fix res
  assume "net w (length (sent w)) = Some res \<and> \<not> (status res = 429 \<and> retryCount < 2)"
  then show "request rt c meth url body retryCount w
         = (parseResponse rt res, attempt rt c meth url body w)"
    by (simp add: request_final)
next
  show "length (sent (snd (request rt c meth url body 0 w))) \<le> length (sent w) + 3"
    using request_fetches [of rt c meth url body 0 w] by simp
next
  show "length (sent w) < length (sent (snd (request rt c meth url body 0 w)))"
    using request_fetches [of rt c meth url body 0 w] by simp
next
  fix r0 r1 r2
  assume a: "net w (length (sent w)) = Some r0 \<and> status r0 = 429
        \<and> net w (length (sent w) + 1) = Some r1 \<and> status r1 = 429
        \<and> net w (length (sent w) + 2) = Some r2"
  then show "fst (request rt c meth url body 0 w) = parseResponse rt r2"
    using request_third(1) [of w r0 r1 r2 rt c meth url body] by simp
  from a show "length (sent (snd (request rt c meth url body 0 w))) = length (sent w) + 3"
    using request_third(2) [of w r0 r1 r2 rt c meth url body] by simp
qed

theorem request_retry_bound_witness:
  "fst (request sample_runtime sample_client GET ''https://api.x.com/2/users/me'' None 0
          (world_of [reply 429 [], reply 429 [], reply 429 ''slow down'']))
     = Inl (Error ''X API error 429: slow down'')
   \<and> length (sent (snd (request sample_runtime sample_client GET ''https://api.x.com/2/users/me''
          None 0 (world_of [reply 429 [], reply 429 [], reply 429 ''slow down''])))) = 3"
proof -
  let ?w = "world_of [reply 429 [], reply 429 [], reply 429 ''slow down'']"
  have h: "net ?w (length (sent ?w)) = Some (reply 429 []) \<and> status (reply 429 []) = 429
        \<and> net ?w (length (sent ?w) + 1) = Some (reply 429 []) \<and> status (reply 429 []) = 429
        \<and> net ?w (length (sent ?w) + 2) = Some (reply 429 ''slow down'')"
    by (simp add: world_of_def reply_def)
  have p: "parseResponse sample_runtime (reply 429 ''slow down'')
      = Inl (Error ''X API error 429: slow down'')"
    by (simp add: parseResponse_def reply_def ok_def sample_runtime_def sample_parse_def
        sample_values_def dq_def string_of_nat.simps digit_char_def)
  have l: "length (sent ?w) = 0"
    by (simp add: world_of_def)
  from h request_retry_bound [of ?w 0 sample_runtime sample_client GET
      "''https://api.x.com/2/users/me''" None]
  have "fst (request sample_runtime sample_client GET ''https://api.x.com/2/users/me'' None 0 ?w)
          = parseResponse sample_runtime (reply 429 ''slow down'')
        \<and> length (sent (snd (request sample_runtime sample_client GET
             ''https://api.x.com/2/users/me'' None 0 ?w))) = length (sent ?w) + 3"
    by blast
  with p l show ?thesis by simp
qed

section \<open>The request signer\<close>

lemma signed_request_headers:
  "fr_headers (signed_request rt c meth url body nonce timestamp)
     = [(''Authorization'', oauth_header rt (client_credentials c) meth url nonce timestamp),
        (''Content-Type'', ''application/json'')]"
  by (simp add: signed_request_def)

lemma same_length: "same_but_bodies w w' \<Longrightarrow> length (sent w) = length (sent w')"
  unfolding same_but_bodies_def by (metis length_map)

lemma same_attempt:
  "same_but_bodies w w' \<Longrightarrow>
   same_but_bodies (attempt rt c meth url b1 w) (attempt rt c meth url b2 w')"
  using same_length [of w w']
  by (simp add: same_but_bodies_def sent_attempt signed_request_headers attempt_def fetch_def)

lemma same_backoff:
  "same_but_bodies w w' \<Longrightarrow> same_but_bodies (backoff c res rc w) (backoff c res rc w')"
  by (simp add: same_but_bodies_def backoff_def sleep_def notify_def)

lemma request_same:
  "same_but_bodies w w' \<Longrightarrow>
   fst (request rt c meth url b1 retryCount w) = fst (request rt c meth url b2 retryCount w')
   \<and> same_but_bodies (snd (request rt c meth url b1 retryCount w))
        (snd (request rt c meth url b2 retryCount w'))"
proof (induction "nat (2 - retryCount)" arbitrary: retryCount w w')
  case 0
  then have no: "\<not> retryCount < 2" by simp
  from 0 have n: "net w' (length (sent w')) = net w (length (sent w))"
    using same_length [of w w'] by (simp add: same_but_bodies_def)
  show ?case
  proof (cases "net w (length (sent w))")
    case None
    with n 0 show ?thesis by (simp add: request_transport same_attempt)
  next
    case (Some res)
    with n no 0 show ?thesis by (simp add: request_final same_attempt)
  qed
next
  case (Suc k)
  then have k: "k = nat (2 - (retryCount + 1))" by simp
  from Suc have n: "net w' (length (sent w')) = net w (length (sent w))"
    using same_length [of w w'] by (simp add: same_but_bodies_def)
  show ?case
  proof (cases "net w (length (sent w))")
    case None
    with n Suc show ?thesis by (simp add: request_transport same_attempt)
  next
    case (Some res)
    show ?thesis
    proof (cases "status res = 429 \<and> retryCount < 2")
      case True
      have "same_but_bodies (backoff c res retryCount (attempt rt c meth url b1 w))
              (backoff c res retryCount (attempt rt c meth url b2 w'))"
        using Suc.prems by (simp add: same_attempt same_backoff)
      from Suc.hyps(1) [OF k this]
      show ?thesis
        using Some n True by (simp add: request_retry)
    next
      case False
      then show ?thesis using Some n Suc.prems by (simp add: request_final same_attempt)
    qed
  qed
qed

lemma same_refl: "same_but_bodies w w"
  by (simp add: same_but_bodies_def)

text \<open>
  Claim C7. The authorization header of a request is a function of the method, the URL,
  the nonce, the timestamp and the secrets: two request bodies with the same method, URL,
  nonce and timestamp get the same headers, and two calls that differ in the body alone
  send the same sequence of headers. The body takes no part in the signature.
\<close>

theorem request_headers_ignore_body:
  "fr_headers (signed_request rt c meth url b1 nonce timestamp)
     = [(''Authorization'', oauth_header rt (client_credentials c) meth url nonce timestamp),
        (''Content-Type'', ''application/json'')]
   \<and> fr_headers (signed_request rt c meth url b1 nonce timestamp)
     = fr_headers (signed_request rt c meth url b2 nonce timestamp)
   \<and> map fr_headers (sent (snd (request rt c meth url b1 retryCount w)))
     = map fr_headers (sent (snd (request rt c meth url b2 retryCount w)))"
  using request_same [OF same_refl, of rt c meth url b1 retryCount w b2]
  by (simp add: signed_request_headers same_but_bodies_def)


theorem request_headers_ignore_body_witness:
  "fr_headers (signed_request sample_runtime sample_client POST ''https://api.x.com/2/tweets''
        (Some (JObject [(''text'', JString ''hello'')])) ''n1'' 1700000000)
     = [(''Authorization'', ''OAuth ck,tk,https://api.x.com/2/tweets,n1,1700000000''),
        (''Content-Type'', ''application/json'')]
   \<and> fr_headers (signed_request sample_runtime sample_client POST ''https://api.x.com/2/tweets''
        (Some (JObject [(''text'', JString ''bye'')])) ''n1'' 1700000000)
     = [(''Authorization'', ''OAuth ck,tk,https://api.x.com/2/tweets,n1,1700000000''),
        (''Content-Type'', ''application/json'')]"
proof -
  let ?h = "oauth_header sample_runtime (client_credentials sample_client) POST
      ''https://api.x.com/2/tweets'' ''n1'' 1700000000"
  have s: "string_of_int 1700000000 = ''1700000000''"
    by (simp add: string_of_int_def string_of_nat.simps digit_char_def)
  have h: "?h = ''OAuth ck,tk,https://api.x.com/2/tweets,n1,1700000000''"
    by (simp add: sample_runtime_def sample_client_def s)
  note t = request_headers_ignore_body [of sample_runtime sample_client POST
        "''https://api.x.com/2/tweets''" "Some (JObject [(''text'', JString ''hello'')])"
        "''n1''" 1700000000 "Some (JObject [(''text'', JString ''bye'')])" 0 "world_of []"]
  from t have a: "fr_headers (signed_request sample_runtime sample_client POST
        ''https://api.x.com/2/tweets'' (Some (JObject [(''text'', JString ''hello'')])) ''n1''
        1700000000) = [(''Authorization'', ?h), (''Content-Type'', ''application/json'')]"
    by (rule conjunct1)
  from t have b: "fr_headers (signed_request sample_runtime sample_client POST
        ''https://api.x.com/2/tweets'' (Some (JObject [(''text'', JString ''hello'')])) ''n1''
        1700000000)
      = fr_headers (signed_request sample_runtime sample_client POST
        ''https://api.x.com/2/tweets'' (Some (JObject [(''text'', JString ''bye'')])) ''n1''
        1700000000)"
    by (rule conjunct2 [THEN conjunct1])
  show ?thesis
    using a b unfolding h by simp
qed

section \<open>Properties of the resource methods\<close>

lemma snd_and_then [simp]: "snd (and_then r f) = snd r"
  by (cases r; cases "fst r") (auto simp: and_then_def split: sum.splits)

lemma and_then_Inr: "r = (Inr x, w') \<Longrightarrow> and_then r f = (f x, w')"
  by (simp add: and_then_def)





lemma urlencode_digit: "d < 10 \<Longrightarrow> urlencode_char (digit_char d) = [digit_char d]"
proof -
  assume "d < 10"
  then have "d \<in> {0, 1, 2, 3, 4, 5, 6, 7, 8, 9}" by auto
  then show ?thesis
    by (auto simp: urlencode_char_def digit_char_def is_alnum_def)
qed

lemma urlencode_append: "urlencode (xs @ ys) = urlencode xs @ urlencode ys"
  by (simp add: urlencode_def)

lemma urlencode_string_of_nat: "urlencode (string_of_nat n) = string_of_nat n"
proof (induction n rule: string_of_nat.induct)
  case (1 n)
  show ?case
  proof (cases "n < 10")
    case True
    then show ?thesis
      by (simp add: string_of_nat.simps [of n] urlencode_def urlencode_digit)
  next
    case False
    with 1 have ih: "urlencode (string_of_nat (n div 10)) = string_of_nat (n div 10)" by simp
    have "urlencode [digit_char (n mod 10)] = [digit_char (n mod 10)]"
      by (simp add: urlencode_def urlencode_digit)
    with ih False show ?thesis
      by (simp add: string_of_nat.simps [of n] urlencode_append)
  qed
qed

lemma urlencode_minus: "urlencode (CHR ''-'' # s) = CHR ''-'' # urlencode s"
  by (simp add: urlencode_def urlencode_char_def is_alnum_def)

lemma urlencode_string_of_int: "urlencode (string_of_int i) = string_of_int i"
  by (simp add: string_of_int_def urlencode_string_of_nat urlencode_minus)


lemma urlencode_latin1: "urlencode (''caf'' @ [CHR 0xE9]) = ''caf%C3%A9''"
  by (simp add: urlencode_def urlencode_char_def is_alnum_def hex_char_def digit_char_def
      percent_byte_def)













lemma get_prop_not_null: "res \<noteq> JNull \<Longrightarrow> get_prop (Some res) k = Inr (own_prop res k)"
  by (cases res) (simp_all add: get_prop_def)

lemma get_prop_null: "get_prop (Some JNull) k = Inl TypeError"
  by (simp add: get_prop_def)

lemma own_prop_data: "own_prop res ''data'' = envelope_data res"
  by (cases res) (simp_all add: own_prop_def envelope_data_def)

lemma data_flag_field_value:
  "res \<noteq> JNull \<Longrightarrow> data_flag res k = Inr (field_value res k)"
proof (cases res)
  case (JObject kvs)
  show ?thesis
  proof (cases "map_of kvs ''data''")
    case None
    with JObject show ?thesis
      by (simp add: data_flag_def get_prop_def own_prop_def opt_prop_def truthy_def
          field_value_def)
  next
    case (Some d)
    show ?thesis
    proof (cases d)
      case (JObject fs)
      show ?thesis
      proof (cases "map_of fs k")
        case None
        with \<open>res = JObject kvs\<close> Some JObject show ?thesis
          by (simp add: data_flag_def get_prop_def own_prop_def opt_prop_def truthy_def
              field_value_def)
      next
        case (Some v)
        with \<open>res = JObject kvs\<close> \<open>map_of kvs ''data'' = Some d\<close> JObject show ?thesis
          by (cases v)
            (simp_all add: data_flag_def get_prop_def own_prop_def opt_prop_def truthy_def
              field_value_def)
      qed
    qed (use \<open>res = JObject kvs\<close> Some in
        \<open>simp_all add: data_flag_def get_prop_def own_prop_def opt_prop_def truthy_def
            field_value_def\<close>)
  qed
qed (simp_all add: data_flag_def get_prop_def own_prop_def opt_prop_def truthy_def
    field_value_def)

lemma data_flag_null: "data_flag JNull k = Inl TypeError"
  by (simp add: data_flag_def get_prop_def)

text \<open>
  Claim C6, as amended. On every response envelope other than the JSON value \<open>null\<close> the
  boolean methods return the value of the named boolean field of \<open>data\<close>: \<open>deleted\<close> for
  \<open>deletePost\<close>, \<open>liked\<close> for \<open>like\<close>, \<open>retweeted\<close> for \<open>retweet\<close>, \<open>following\<close> for
  \<open>follow\<close>; \<open>unlike\<close> and \<open>unfollow\<close> return the negation of their field. An absent
  field counts as false before the negation.
\<close>

theorem boolean_methods:
  assumes "res \<noteq> JNull"
  shows
    "(request rt c DELETE (BASE_URL @ ''/tweets/'' @ post_id) None 0 w = (Inr res, w') \<longrightarrow>
        deletePost rt c post_id w = (Inr (field_value res ''deleted''), w'))
     \<and> (request rt c POST (BASE_URL @ ''/users/'' @ userId @ ''/likes'')
           (Some (JObject [(''tweet_id'', JString tweetId)])) 0 w = (Inr res, w') \<longrightarrow>
        like rt c userId tweetId w = (Inr (field_value res ''liked''), w'))
     \<and> (request rt c DELETE (BASE_URL @ ''/users/'' @ userId @ ''/likes/'' @ tweetId)
           None 0 w = (Inr res, w') \<longrightarrow>
        unlike rt c userId tweetId w = (Inr (\<not> field_value res ''liked''), w'))
     \<and> (request rt c POST (BASE_URL @ ''/users/'' @ userId @ ''/retweets'')
           (Some (JObject [(''tweet_id'', JString tweetId)])) 0 w = (Inr res, w') \<longrightarrow>
        retweet rt c userId tweetId w = (Inr (field_value res ''retweeted''), w'))
     \<and> (request rt c POST (BASE_URL @ ''/users/'' @ userId @ ''/following'')
           (Some (JObject [(''target_user_id'', JString targetUserId)])) 0 w = (Inr res, w') \<longrightarrow>
        follow rt c userId targetUserId w = (Inr (field_value res ''following''), w'))
     \<and> (request rt c DELETE (BASE_URL @ ''/users/'' @ userId @ ''/following/'' @ targetUserId)
           None 0 w = (Inr res, w') \<longrightarrow>
        unfollow rt c userId targetUserId w = (Inr (\<not> field_value res ''following''), w'))
     \<and> (\<forall>kvs d k b. res = JObject kvs \<and> map_of kvs ''data'' = Some (JObject d)
            \<and> map_of d k = Some (JBool b) \<longrightarrow>
          field_value res k = b)
     \<and> (\<forall>kvs d k. res = JObject kvs \<and> map_of kvs ''data'' = Some (JObject d)
            \<and> map_of d k = None \<longrightarrow>
          \<not> field_value res k)
     \<and> (\<forall>kvs k. res = JObject kvs \<and> map_of kvs ''data'' = None \<longrightarrow> \<not> field_value res k)"
proof (intro conjI allI impI)
  assume "request rt c DELETE (BASE_URL @ ''/tweets/'' @ post_id) None 0 w = (Inr res, w')"
  then show "deletePost rt c post_id w = (Inr (field_value res ''deleted''), w')"
    using assms by (simp add: deletePost_def and_then_def data_flag_field_value)
next
  assume "request rt c POST (BASE_URL @ ''/users/'' @ userId @ ''/likes'')
           (Some (JObject [(''tweet_id'', JString tweetId)])) 0 w = (Inr res, w')"
  then show "like rt c userId tweetId w = (Inr (field_value res ''liked''), w')"
    using assms by (simp add: like_def and_then_def data_flag_field_value)
next
  assume "request rt c DELETE (BASE_URL @ ''/users/'' @ userId @ ''/likes/'' @ tweetId)
           None 0 w = (Inr res, w')"
  then show "unlike rt c userId tweetId w = (Inr (\<not> field_value res ''liked''), w')"
    using assms by (simp add: unlike_def and_then_def data_flag_field_value)
next
  assume "request rt c POST (BASE_URL @ ''/users/'' @ userId @ ''/retweets'')
           (Some (JObject [(''tweet_id'', JString tweetId)])) 0 w = (Inr res, w')"
  then show "retweet rt c userId tweetId w = (Inr (field_value res ''retweeted''), w')"
    using assms by (simp add: retweet_def and_then_def data_flag_field_value)
next
  assume "request rt c POST (BASE_URL @ ''/users/'' @ userId @ ''/following'')
           (Some (JObject [(''target_user_id'', JString targetUserId)])) 0 w = (Inr res, w')"
  then show "follow rt c userId targetUserId w = (Inr (field_value res ''following''), w')"
    using assms by (simp add: follow_def and_then_def data_flag_field_value)
next
  assume "request rt c DELETE (BASE_URL @ ''/users/'' @ userId @ ''/following/'' @ targetUserId)
           None 0 w = (Inr res, w')"
  then show "unfollow rt c userId targetUserId w = (Inr (\<not> field_value res ''following''), w')"
    using assms by (simp add: unfollow_def and_then_def data_flag_field_value)
next
  fix kvs d k b
  assume "res = JObject kvs \<and> map_of kvs ''data'' = Some (JObject d)
            \<and> map_of d k = Some (JBool b)"
  then show "field_value res k = b"
    by (simp add: field_value_def)
next
  fix kvs d k
  assume "res = JObject kvs \<and> map_of kvs ''data'' = Some (JObject d) \<and> map_of d k = None"
  then show "\<not> field_value res k"
    by (simp add: field_value_def)
next
  fix kvs k
  assume "res = JObject kvs \<and> map_of kvs ''data'' = None"
  then show "\<not> field_value res k"
    by (simp add: field_value_def)
qed

lemma sample_parse_values:
  "sample_parse (sample_stringify (JObject [(''data'', JObject [])]))
     = Some (JObject [(''data'', JObject [])])"
  "sample_parse (sample_stringify (JObject [(''data'', JObject [(''liked'', JBool False)])]))
     = Some (JObject [(''data'', JObject [(''liked'', JBool False)])])"
  "sample_parse (sample_stringify (JObject [(''data'', JObject [(''liked'', JBool True)])]))
     = Some (JObject [(''data'', JObject [(''liked'', JBool True)])])"
  "sample_parse ''null'' = Some JNull"
  by (simp_all add: sample_parse_def sample_values_def dq_def)

lemma request_single:
  "net w (length (sent w)) = Some res \<Longrightarrow> status res \<noteq> 429 \<Longrightarrow>
   request rt c meth url body 0 w = (parseResponse rt res, attempt rt c meth url body w)"
  by (simp add: request_final)

lemma sample_reply:
  "sample_parse b = Some e \<Longrightarrow>
   request sample_runtime sample_client meth url body 0 (world_of [reply 200 b])
     = (Inr e, attempt sample_runtime sample_client meth url body (world_of [reply 200 b]))"
proof -
  assume p: "sample_parse b = Some e"
  have "parseResponse sample_runtime (reply 200 b) = Inr e"
    using p by (simp add: parseResponse_def reply_def ok_def sample_runtime_def)
  moreover have "net (world_of [reply 200 b]) (length (sent (world_of [reply 200 b])))
      = Some (reply 200 b)"
    by (simp add: world_of_def)
  moreover have "status (reply 200 b) \<noteq> 429"
    by (simp add: reply_def)
  ultimately show ?thesis
    by (simp add: request_single)
qed

theorem boolean_methods_witness:
  "fst (deletePost sample_runtime sample_client ''123''
          (world_of [reply 200 (sample_stringify (JObject [(''data'', JObject [])]))]))
     = Inr False
   \<and> fst (unlike sample_runtime sample_client ''7'' ''123''
          (world_of [reply 200
             (sample_stringify (JObject [(''data'', JObject [(''liked'', JBool False)])]))]))
     = Inr True
   \<and> fst (like sample_runtime sample_client ''7'' ''123''
          (world_of [reply 200
             (sample_stringify (JObject [(''data'', JObject [(''liked'', JBool True)])]))]))
     = Inr True
   \<and> fst (unlike sample_runtime sample_client ''7'' ''123''
          (world_of [reply 200
             (sample_stringify (JObject [(''data'', JObject [(''liked'', JBool True)])]))]))
     = Inr False"
proof -
  let ?e1 = "JObject [(''data'', JObject [])] :: int json"
  let ?e2 = "JObject [(''data'', JObject [(''liked'', JBool False)])] :: int json"
  let ?e3 = "JObject [(''data'', JObject [(''liked'', JBool True)])] :: int json"
  let ?w1 = "world_of [reply 200 (sample_stringify ?e1)]"
  let ?w2 = "world_of [reply 200 (sample_stringify ?e2)]"
  let ?w3 = "world_of [reply 200 (sample_stringify ?e3)]"
  let ?u1 = "BASE_URL @ ''/tweets/'' @ ''123''"
  let ?u2 = "BASE_URL @ ''/users/'' @ ''7'' @ ''/likes/'' @ ''123''"
  let ?u3 = "BASE_URL @ ''/users/'' @ ''7'' @ ''/likes''"
  let ?b3 = "Some (JObject [(''tweet_id'', JString ''123'')]) :: int json option"
  note r1 = sample_reply [OF sample_parse_values(1), of DELETE ?u1 None]
  note r2 = sample_reply [OF sample_parse_values(2), of DELETE ?u2 None]
  note r3 = sample_reply [OF sample_parse_values(3), of POST ?u3 ?b3]
  note r4 = sample_reply [OF sample_parse_values(3), of DELETE ?u2 None]
  have n1: "?e1 \<noteq> JNull" and n2: "?e2 \<noteq> JNull" and n3: "?e3 \<noteq> JNull"
    by simp_all
  from boolean_methods [OF n1, of sample_runtime sample_client "''123''" ?w1
      "attempt sample_runtime sample_client DELETE ?u1 None ?w1"] r1
  have d: "deletePost sample_runtime sample_client ''123'' ?w1
      = (Inr (field_value ?e1 ''deleted''),
         attempt sample_runtime sample_client DELETE ?u1 None ?w1)"
    by blast
  from boolean_methods [OF n2, of sample_runtime sample_client _ ?w2
      "attempt sample_runtime sample_client DELETE ?u2 None ?w2" "''7''" "''123''"] r2
  have u: "unlike sample_runtime sample_client ''7'' ''123'' ?w2
      = (Inr (\<not> field_value ?e2 ''liked''),
         attempt sample_runtime sample_client DELETE ?u2 None ?w2)"
    by blast
  from boolean_methods [OF n3, of sample_runtime sample_client _ ?w3
      "attempt sample_runtime sample_client POST ?u3 ?b3 ?w3" "''7''" "''123''"] r3
  have l: "like sample_runtime sample_client ''7'' ''123'' ?w3
      = (Inr (field_value ?e3 ''liked''),
         attempt sample_runtime sample_client POST ?u3 ?b3 ?w3)"
    by blast
  from boolean_methods [OF n3, of sample_runtime sample_client _ ?w3
      "attempt sample_runtime sample_client DELETE ?u2 None ?w3" "''7''" "''123''"] r4
  have v: "unlike sample_runtime sample_client ''7'' ''123'' ?w3
      = (Inr (\<not> field_value ?e3 ''liked''),
         attempt sample_runtime sample_client DELETE ?u2 None ?w3)"
    by blast
  have "field_value ?e1 ''deleted'' = False" "field_value ?e2 ''liked'' = False"
    "field_value ?e3 ''liked'' = True"
    by (simp_all add: field_value_def)
  with d u l v show ?thesis by simp
qed

text \<open>
  The claim as it was stated fails on the envelope \<open>null\<close>: the body \<open>null\<close> parses, the
  status is 200, and \<open>deletePost\<close> raises a TypeError where the claim has it return false.
\<close>

theorem null_envelope_counterexample:
  "fst (deletePost sample_runtime sample_client ''123'' (world_of [reply 200 ''null'']))
     = Inl TypeError"
proof -
  note r = sample_reply [OF sample_parse_values(4), of DELETE "BASE_URL @ ''/tweets/'' @ ''123''"
      None]
  show ?thesis
    unfolding deletePost_def r and_then_def by (simp add: data_flag_null)
qed

lemma data_or_throw_eq:
  "res \<noteq> JNull \<Longrightarrow>
   data_or_throw res msg
     = (if truthy (envelope_data res) then Inr (envelope_data res) else Inl (Error msg))"
  by (simp add: data_or_throw_def get_prop_not_null own_prop_data)

lemma data_or_throw_null: "data_or_throw JNull msg = Inl TypeError"
  by (simp add: data_or_throw_def get_prop_def)

lemma data_or_throw_truthy: "data_or_throw res msg = Inr v \<Longrightarrow> truthy v"
  by (auto simp: data_or_throw_def split: sum.splits if_splits)

lemma and_then_result:
  "and_then r f = (Inr v, w') \<Longrightarrow> \<exists>x. r = (Inr x, w') \<and> f x = Inr v"
  by (cases r; cases "fst r") (auto simp: and_then_def)

text \<open>
  Claim C10, as amended. When the envelope of a 2xx response is a JSON value other than
  \<open>null\<close> and has no \<open>data\<close> field (or a falsy one), \<open>createPost\<close>, \<open>me\<close> and \<open>getUser\<close>
  raise an error saying that the API returned no data; otherwise they return the \<open>data\<close>
  field as it is. So a value they return is never \<open>undefined\<close>, \<open>null\<close> or otherwise
  falsy; nothing more is checked about its fields.
\<close>

theorem entity_methods:
  assumes "res \<noteq> JNull"
  shows
    "(request rt c POST (BASE_URL @ ''/tweets'')
         (Some (createPost_body post_text replyTo quoteTweetId)) 0 w = (Inr res, w') \<longrightarrow>
        createPost rt c post_text replyTo quoteTweetId w
          = (if truthy (envelope_data res) then Inr (envelope_data res)
             else Inl (Error ''X API returned no post data.''), w'))
     \<and> (request rt c GET
           (BASE_URL @ ''/users/me?user.fields=id,name,username,description,public_metrics'')
           None 0 w = (Inr res, w') \<longrightarrow>
        me rt c w
          = (if truthy (envelope_data res) then Inr (envelope_data res)
             else Inl (Error ''X API returned no authenticated user data.''), w'))
     \<and> (request rt c GET
           (BASE_URL @ ''/users/by/username/'' @ username
              @ ''?user.fields=id,name,username,description,public_metrics'')
           None 0 w = (Inr res, w') \<longrightarrow>
        getUser rt c username w
          = (if truthy (envelope_data res) then Inr (envelope_data res)
             else Inl (Error (''X API returned no user data for @'' @ username @ ''.'')), w'))
     \<and> (\<forall>kvs. res = JObject kvs \<and> map_of kvs ''data'' = None \<longrightarrow>
          \<not> truthy (envelope_data res))
     \<and> (\<forall>kvs d. res = JObject kvs \<and> map_of kvs ''data'' = Some (JObject d) \<longrightarrow>
          truthy (envelope_data res) \<and> envelope_data res = Some (JObject d))
     \<and> (\<forall>v w1. createPost rt c post_text replyTo quoteTweetId w = (Inr v, w1) \<longrightarrow>
          v \<noteq> None \<and> v \<noteq> Some JNull \<and> truthy v)
     \<and> (\<forall>v w1. me rt c w = (Inr v, w1) \<longrightarrow> v \<noteq> None \<and> v \<noteq> Some JNull \<and> truthy v)
     \<and> (\<forall>v w1. getUser rt c username w = (Inr v, w1) \<longrightarrow>
          v \<noteq> None \<and> v \<noteq> Some JNull \<and> truthy v)"
proof -
  have t: "truthy v \<Longrightarrow> v \<noteq> None \<and> v \<noteq> Some JNull \<and> truthy v" for v :: "'a json option"
    by (auto simp: truthy_def split: option.splits)
  have a: "request rt c POST (BASE_URL @ ''/tweets'')
         (Some (createPost_body post_text replyTo quoteTweetId)) 0 w = (Inr res, w') \<longrightarrow>
        createPost rt c post_text replyTo quoteTweetId w
          = (if truthy (envelope_data res) then Inr (envelope_data res)
             else Inl (Error ''X API returned no post data.''), w')"
    using assms by (simp add: createPost_def and_then_def data_or_throw_eq)
  have b: "request rt c GET
           (BASE_URL @ ''/users/me?user.fields=id,name,username,description,public_metrics'')
           None 0 w = (Inr res, w') \<longrightarrow>
        me rt c w
          = (if truthy (envelope_data res) then Inr (envelope_data res)
             else Inl (Error ''X API returned no authenticated user data.''), w')"
    using assms by (simp add: me_def and_then_def data_or_throw_eq)
  have c: "request rt c GET
           (BASE_URL @ ''/users/by/username/'' @ username
              @ ''?user.fields=id,name,username,description,public_metrics'')
           None 0 w = (Inr res, w') \<longrightarrow>
        getUser rt c username w
          = (if truthy (envelope_data res) then Inr (envelope_data res)
             else Inl (Error (''X API returned no user data for @'' @ username @ ''.'')), w')"
    using assms by (simp add: getUser_def and_then_def data_or_throw_eq)
  have d: "\<forall>kvs. res = JObject kvs \<and> map_of kvs ''data'' = None \<longrightarrow>
          \<not> truthy (envelope_data res)"
    by (simp add: envelope_data_def truthy_def)
  have e: "\<forall>kvs d. res = JObject kvs \<and> map_of kvs ''data'' = Some (JObject d) \<longrightarrow>
          truthy (envelope_data res) \<and> envelope_data res = Some (JObject d)"
    by (simp add: envelope_data_def truthy_def)
  have f: "\<forall>v w1. createPost rt c post_text replyTo quoteTweetId w = (Inr v, w1) \<longrightarrow>
          v \<noteq> None \<and> v \<noteq> Some JNull \<and> truthy v"
    unfolding createPost_def by (blast dest: and_then_result data_or_throw_truthy t)
  have g: "\<forall>v w1. me rt c w = (Inr v, w1) \<longrightarrow> v \<noteq> None \<and> v \<noteq> Some JNull \<and> truthy v"
    unfolding me_def by (blast dest: and_then_result data_or_throw_truthy t)
  have h: "\<forall>v w1. getUser rt c username w = (Inr v, w1) \<longrightarrow>
          v \<noteq> None \<and> v \<noteq> Some JNull \<and> truthy v"
    unfolding getUser_def by (blast dest: and_then_result data_or_throw_truthy t)
  from a b c d e f g h show ?thesis
    by (intro conjI)
qed

lemma sample_parse_entities:
  "sample_parse (sample_stringify (JObject [(''meta'', JObject [(''result_count'', JNumber 0)])]))
     = Some (JObject [(''meta'', JObject [(''result_count'', JNumber 0)])])"
  "sample_parse (sample_stringify
       (JObject [(''data'', JObject [(''id'', JString ''123''), (''text'', JString ''hello'')])]))
     = Some (JObject [(''data'', JObject [(''id'', JString ''123''), (''text'', JString ''hello'')])])"
  by (simp_all add: sample_parse_def sample_values_def dq_def string_of_int_def
      string_of_nat.simps digit_char_def)

theorem entity_methods_witness:
  "fst (me sample_runtime sample_client
          (world_of [reply 200 (sample_stringify
             (JObject [(''meta'', JObject [(''result_count'', JNumber 0)])]))]))
     = Inl (Error ''X API returned no authenticated user data.'')
   \<and> fst (createPost sample_runtime sample_client ''hello'' None None
          (world_of [reply 200 (sample_stringify
             (JObject [(''data'', JObject [(''id'', JString ''123''),
                                           (''text'', JString ''hello'')])]))]))
     = Inr (Some (JObject [(''id'', JString ''123''), (''text'', JString ''hello'')]))"
proof -
  let ?e = "JObject [(''meta'', JObject [(''result_count'', JNumber 0)])] :: int json"
  let ?d = "JObject [(''id'', JString ''123''), (''text'', JString ''hello'')] :: int json"
  let ?f = "JObject [(''data'', ?d)] :: int json"
  let ?w = "world_of [reply 200 (sample_stringify ?e)]"
  let ?x = "world_of [reply 200 (sample_stringify ?f)]"
  let ?u = "BASE_URL @ ''/users/me?user.fields=id,name,username,description,public_metrics''"
  let ?b = "Some (createPost_body ''hello'' None None) :: int json option"
  note r = sample_reply [OF sample_parse_entities(1), of GET ?u None]
  note q = sample_reply [OF sample_parse_entities(2), of POST "BASE_URL @ ''/tweets''" ?b]
  have n: "?e \<noteq> JNull" and m: "?f \<noteq> JNull"
    by simp_all
  from entity_methods [OF n, of sample_runtime sample_client _ _ _ ?w
      "attempt sample_runtime sample_client GET ?u None ?w"] r
  have "me sample_runtime sample_client ?w
          = (if truthy (envelope_data ?e) then Inr (envelope_data ?e)
             else Inl (Error ''X API returned no authenticated user data.''),
             attempt sample_runtime sample_client GET ?u None ?w)"
    by blast
  moreover have "\<not> truthy (envelope_data ?e)"
    by (simp add: envelope_data_def truthy_def)
  ultimately have a: "fst (me sample_runtime sample_client ?w)
      = Inl (Error ''X API returned no authenticated user data.'')"
    by simp
  from entity_methods [OF m, of sample_runtime sample_client "''hello''" None None ?x
      "attempt sample_runtime sample_client POST (BASE_URL @ ''/tweets'') ?b ?x"] q
  have "createPost sample_runtime sample_client ''hello'' None None ?x
          = (if truthy (envelope_data ?f) then Inr (envelope_data ?f)
             else Inl (Error ''X API returned no post data.''),
             attempt sample_runtime sample_client POST (BASE_URL @ ''/tweets'') ?b ?x)"
    by blast
  moreover have "truthy (envelope_data ?f)" "envelope_data ?f = Some ?d"
    by (simp_all add: envelope_data_def truthy_def)
  ultimately have b: "fst (createPost sample_runtime sample_client ''hello'' None None ?x)
      = Inr (Some ?d)"
    by simp
  from a b show ?thesis
    by (intro conjI)
qed

text \<open>
  The claim as it was stated fails twice. On the envelope \<open>{"data":{}}\<close> \<open>createPost\<close>
  returns the empty object, which has neither an \<open>id\<close> nor a \<open>text\<close> field. On the
  envelope \<open>null\<close>, which has no \<open>data\<close> field, \<open>me\<close> raises a TypeError and not the error
  that says the API returned no data.
\<close>

theorem entity_fields_counterexample:
  "fst (createPost sample_runtime sample_client ''hello'' None None
          (world_of [reply 200 (sample_stringify (JObject [(''data'', JObject [])]))]))
     = Inr (Some (JObject []))
   \<and> map_of ([] :: (string \<times> int json) list) ''id'' = None
   \<and> map_of ([] :: (string \<times> int json) list) ''text'' = None
   \<and> fst (me sample_runtime sample_client (world_of [reply 200 ''null''])) = Inl TypeError"
proof -
  let ?e = "JObject [(''data'', JObject [])] :: int json"
  let ?b = "Some (createPost_body ''hello'' None None) :: int json option"
  note r = sample_reply [OF sample_parse_values(1), of POST "BASE_URL @ ''/tweets''" ?b]
  note q = sample_reply [OF sample_parse_values(4), of GET
      "BASE_URL @ ''/users/me?user.fields=id,name,username,description,public_metrics''" None]
  have d: "data_or_throw ?e ''X API returned no post data.'' = Inr (Some (JObject []))"
    by (simp add: data_or_throw_def get_prop_def own_prop_def truthy_def)
  have a: "fst (createPost sample_runtime sample_client ''hello'' None None
        (world_of [reply 200 (sample_stringify ?e)])) = Inr (Some (JObject []))"
    unfolding createPost_def r and_then_def by (simp add: d)
  have b: "fst (me sample_runtime sample_client (world_of [reply 200 ''null''])) = Inl TypeError"
    unfolding me_def q and_then_def by (simp add: data_or_throw_null)
  from a b show ?thesis
    by simp
qed

section \<open>Properties of credential loading\<close>

lemma merge_lines_keeps: "str_truthy (env k) \<Longrightarrow> merge_lines ls env k = env k"
proof (induction ls arbitrary: env)
  case Nil
  then show ?case by simp
next
  case (Cons line ls)
  show ?case
  proof (cases "skip_line line")
    case True
    with Cons show ?thesis by simp
  next
    case False
    show ?thesis
    proof (cases "match_line line")
      case None
      with False Cons show ?thesis by simp
    next
      case (Some kv)
      obtain k' v where kv: "kv = (k', v)" by (cases kv)
      show ?thesis
      proof (cases "str_truthy (env k')")
        case True
        with False Some kv Cons show ?thesis by simp
      next
        case nt: False
        then have "k' \<noteq> k" using Cons.prems by auto
        then have "str_truthy ((env(k' \<mapsto> v)) k)" using Cons.prems by simp
        then have "merge_lines ls (env(k' \<mapsto> v)) k = (env(k' \<mapsto> v)) k"
          by (rule Cons.IH)
        then have "merge_lines ls (env(k' \<mapsto> v)) k = env k"
          using \<open>k' \<noteq> k\<close> by simp
        moreover have "merge_lines (line # ls) env = merge_lines ls (env(k' \<mapsto> v))"
          using False Some kv nt by simp
        ultimately show ?thesis by simp
      qed
    qed
  qed
qed

lemma read_credentials_fails:
  "(\<exists>e. read_credentials env = Inl e) \<longleftrightarrow>
     (\<not> str_truthy (env_or (env ''X_API_KEY'') (env ''TWITTER_API_KEY''))
      \<or> \<not> str_truthy (env_or (env ''X_API_SECRET'') (env ''TWITTER_API_SECRET''))
      \<or> \<not> str_truthy (env_or (env ''X_ACCESS_TOKEN'') (env ''TWITTER_ACCESS_TOKEN''))
      \<or> \<not> str_truthy (env_or (env ''X_ACCESS_TOKEN_SECRET'') (env ''TWITTER_ACCESS_TOKEN_SECRET'')))"
  by (simp add: read_credentials_def Let_def)

lemma read_credentials_message:
  "read_credentials env = Inl e \<Longrightarrow>
   e = Error (missing_message
         ((if \<not> str_truthy (env_or (env ''X_API_KEY'') (env ''TWITTER_API_KEY''))
           then [''X_API_KEY''] else [])
          @ (if \<not> str_truthy (env_or (env ''X_API_SECRET'') (env ''TWITTER_API_SECRET''))
             then [''X_API_SECRET''] else [])
          @ (if \<not> str_truthy (env_or (env ''X_ACCESS_TOKEN'') (env ''TWITTER_ACCESS_TOKEN''))
             then [''X_ACCESS_TOKEN''] else [])
          @ (if \<not> str_truthy (env_or (env ''X_ACCESS_TOKEN_SECRET'')
                                 (env ''TWITTER_ACCESS_TOKEN_SECRET''))
             then [''X_ACCESS_TOKEN_SECRET''] else [])))"
  by (simp add: read_credentials_def Let_def split: if_splits)

text \<open>
  Claim C8. Credential loading should fail exactly when one of the four credentials is
  absent from both its \<open>X_\<close> and its \<open>TWITTER_\<close> variable. With \<open>X_API_KEY\<close> set to the
  empty string and \<open>TWITTER_API_KEY\<close> holding the key, the key is not absent from both;
  \<open>??\<close> nevertheless keeps the empty string, and loading fails naming \<open>X_API_KEY\<close>.
  With \<open>X_API_KEY\<close> unset, the same environment loads, the key taken from
  \<open>TWITTER_API_KEY\<close>.
\<close>

theorem loadCredentials_empty_shadows_fallback:
  "fst (loadCredentials ''/home/u/.config/twx-cli/.env'' None
          (map_of [(''X_API_KEY'', []), (''TWITTER_API_KEY'', ''k''), (''X_API_SECRET'', ''s''),
                   (''X_ACCESS_TOKEN'', ''t''), (''X_ACCESS_TOKEN_SECRET'', ''u'')]))
     = Inl (Error (''Missing credentials: X_API_KEY'' @ [CHR 0x0A]
                   @ ''Set them as environment variables or in .env / ~/.config/twx-cli/.env''))
   \<and> fst (loadCredentials ''/home/u/.config/twx-cli/.env'' None
          (map_of [(''TWITTER_API_KEY'', ''k''), (''X_API_SECRET'', ''s''),
                   (''X_ACCESS_TOKEN'', ''t''), (''X_ACCESS_TOKEN_SECRET'', ''u'')]))
     = Inr \<lparr>apiKey = ''k'', apiSecret = ''s'', accessToken = ''t'', accessTokenSecret = ''u'',
            bearerToken = None\<rparr>"
  by (simp add: loadCredentials_def read_credentials_def env_or_def str_truthy_def
      missing_message_def)

lemma world_bit: "(m::nat) AND 36 = 0 \<Longrightarrow> m AND 4 = 0"
proof -
  assume a: "m AND 36 = 0"
  have "(36::nat) AND 4 = 4" by simp
  then have "m AND 4 = (m AND 36) AND 4" by (simp add: and.assoc)
  with a show ?thesis by simp
qed

lemma loadCredentials_warnings:
  "snd (snd (loadCredentials p file env))
     = (case file of
          None \<Rightarrow> []
        | Some f \<Rightarrow>
            (case cf_mode f of
               None \<Rightarrow> []
             | Some m \<Rightarrow> if m AND 4 \<noteq> 0 then [WorldReadable p] else []))"
  by (simp add: loadCredentials_def Let_def split: option.splits)

lemma loadCredentials_mode_irrelevant:
  "fst (loadCredentials p (Some (f\<lparr>cf_mode := m1\<rparr>)) env)
     = fst (loadCredentials p (Some (f\<lparr>cf_mode := m2\<rparr>)) env)
   \<and> fst (snd (loadCredentials p (Some (f\<lparr>cf_mode := m1\<rparr>)) env))
     = fst (snd (loadCredentials p (Some (f\<lparr>cf_mode := m2\<rparr>)) env))"
  by (simp add: loadCredentials_def Let_def split: option.splits)

text \<open>
  Claim C9, as amended. For an existing config file whose mode has the world-read bit
  (octal 004) the loader prints one warning, and the warning is not fatal: the result and
  the environment are what they are for any other mode of the same file. For a file whose
  mode lacks that bit no warning is printed; that holds of a file readable by its owner
  alone, and also of a file that is only group-readable.
\<close>

theorem world_readable_warning:
  "(\<forall>m. cf_mode f = Some m \<and> m AND 4 \<noteq> 0 \<longrightarrow>
       snd (snd (loadCredentials p (Some f) env)) = [WorldReadable p])
   \<and> (\<forall>m. cf_mode f = Some m \<and> m AND 4 = 0 \<longrightarrow>
       snd (snd (loadCredentials p (Some f) env)) = [])
   \<and> (\<forall>m. cf_mode f = Some m \<and> m AND 36 = 0 \<longrightarrow>
       snd (snd (loadCredentials p (Some f) env)) = [])
   \<and> (\<forall>m1 m2.
        fst (loadCredentials p (Some (f\<lparr>cf_mode := m1\<rparr>)) env)
          = fst (loadCredentials p (Some (f\<lparr>cf_mode := m2\<rparr>)) env)
        \<and> fst (snd (loadCredentials p (Some (f\<lparr>cf_mode := m1\<rparr>)) env))
          = fst (snd (loadCredentials p (Some (f\<lparr>cf_mode := m2\<rparr>)) env)))"
proof (intro conjI allI impI)
  fix m
  assume "cf_mode f = Some m \<and> m AND 4 \<noteq> 0"
  then show "snd (snd (loadCredentials p (Some f) env)) = [WorldReadable p]"
    by (simp add: loadCredentials_warnings)
next
  fix m
  assume "cf_mode f = Some m \<and> m AND 4 = 0"
  then show "snd (snd (loadCredentials p (Some f) env)) = []"
    by (simp add: loadCredentials_warnings)
next
  fix m
  assume "cf_mode f = Some m \<and> m AND 36 = 0"
  then show "snd (snd (loadCredentials p (Some f) env)) = []"
    using world_bit [of m] by (simp add: loadCredentials_warnings)
next
  fix m1 m2
  show "fst (loadCredentials p (Some (f\<lparr>cf_mode := m1\<rparr>)) env)
          = fst (loadCredentials p (Some (f\<lparr>cf_mode := m2\<rparr>)) env)"
    by (rule loadCredentials_mode_irrelevant [THEN conjunct1])
  show "fst (snd (loadCredentials p (Some (f\<lparr>cf_mode := m1\<rparr>)) env))
          = fst (snd (loadCredentials p (Some (f\<lparr>cf_mode := m2\<rparr>)) env))"
    by (rule loadCredentials_mode_irrelevant [THEN conjunct2])
qed

lemma sample_lines:
  "split_lines sample_config
     = [''# twx-cli'', ''X_API_KEY=ck'', ''X_API_SECRET = cs # secret'', ''X_ACCESS_TOKEN=tk'',
        ''X_ACCESS_TOKEN_SECRET=ts'', []]"
  by (simp add: sample_config_def)

lemma sample_skips:
  "skip_line ''# twx-cli''" "skip_line []"
  "\<not> skip_line ''X_API_KEY=ck''" "\<not> skip_line ''X_API_SECRET = cs # secret''"
  "\<not> skip_line ''X_ACCESS_TOKEN=tk''" "\<not> skip_line ''X_ACCESS_TOKEN_SECRET=ts''"
  by (simp_all add: skip_line_def is_space_def)

lemma sample_matches:
  "match_line ''X_API_KEY=ck'' = Some (''X_API_KEY'', ''ck'')"
  "match_line ''X_API_SECRET = cs # secret'' = Some (''X_API_SECRET'', ''cs'')"
  "match_line ''X_ACCESS_TOKEN=tk'' = Some (''X_ACCESS_TOKEN'', ''tk'')"
  "match_line ''X_ACCESS_TOKEN_SECRET=ts'' = Some (''X_ACCESS_TOKEN_SECRET'', ''ts'')"
  by (simp_all add: match_line_def match_value_def tail_ok_def is_space_def is_dot_def
      key_start_def key_char_def is_digit_def)

lemma sample_env:
  "merge_lines (split_lines sample_config) Map.empty
     = [''X_API_KEY'' \<mapsto> ''ck'', ''X_API_SECRET'' \<mapsto> ''cs'', ''X_ACCESS_TOKEN'' \<mapsto> ''tk'',
        ''X_ACCESS_TOKEN_SECRET'' \<mapsto> ''ts'']"
  by (simp add: sample_lines sample_skips sample_matches str_truthy_def)

lemma sample_config_loads:
  "fst (loadCredentials ''/home/u/.config/twx-cli/.env''
          (Some \<lparr>cf_mode = Some 33188, cf_content = Some sample_config\<rparr>) Map.empty)
     = Inr \<lparr>apiKey = ''ck'', apiSecret = ''cs'', accessToken = ''tk'',
            accessTokenSecret = ''ts'', bearerToken = None\<rparr>"
  by (simp add: loadCredentials_def sample_env read_credentials_def env_or_def str_truthy_def)

theorem world_readable_warning_witness:
  "snd (snd (loadCredentials ''/home/u/.config/twx-cli/.env''
               (Some \<lparr>cf_mode = Some 33188, cf_content = Some sample_config\<rparr>) Map.empty))
     = [WorldReadable ''/home/u/.config/twx-cli/.env'']
   \<and> fst (loadCredentials ''/home/u/.config/twx-cli/.env''
               (Some \<lparr>cf_mode = Some 33188, cf_content = Some sample_config\<rparr>) Map.empty)
     = Inr \<lparr>apiKey = ''ck'', apiSecret = ''cs'', accessToken = ''tk'',
            accessTokenSecret = ''ts'', bearerToken = None\<rparr>
   \<and> snd (snd (loadCredentials ''/home/u/.config/twx-cli/.env''
               (Some \<lparr>cf_mode = Some 33152, cf_content = Some sample_config\<rparr>) Map.empty))
     = []"
proof -
  let ?p = "''/home/u/.config/twx-cli/.env''"
  let ?f = "\<lparr>cf_mode = Some 33188, cf_content = Some sample_config\<rparr>"
  let ?g = "\<lparr>cf_mode = Some 33152, cf_content = Some sample_config\<rparr>"
  have a: "cf_mode ?f = Some 33188 \<and> (33188::nat) AND 4 \<noteq> 0"
    by simp
  have b: "cf_mode ?g = Some 33152 \<and> (33152::nat) AND 36 = 0"
    by simp
  from a world_readable_warning [of ?f ?p Map.empty]
  have w1: "snd (snd (loadCredentials ?p (Some ?f) Map.empty)) = [WorldReadable ?p]"
    by blast
  from b world_readable_warning [of ?g ?p Map.empty]
  have w2: "snd (snd (loadCredentials ?p (Some ?g) Map.empty)) = []"
    by blast
  from w1 w2 sample_config_loads show ?thesis
    by blast
qed

text \<open>
  The claim as it was stated fails: a file of mode 0640 is group-readable (bit 040), and
  the loader prints no warning for it.
\<close>

theorem group_readable_counterexample:
  "(33184::nat) AND 32 \<noteq> 0
   \<and> snd (snd (loadCredentials ''/home/u/.config/twx-cli/.env''
               (Some \<lparr>cf_mode = Some 33184, cf_content = Some sample_config\<rparr>) Map.empty))
     = []"
  by (simp add: loadCredentials_warnings)

end
